theory Spec2Isabelle
  imports Main
begin

section \<open>NowClipboard: values, errors and promises\<close>

text \<open>
  The library is JavaScript. A rejected promise carries an error object; the model keeps
  the constructor and the message. \<open>DOMException\<close> stands for the errors the platform
  itself produces (a denied permission, a lost focus).
\<close>

datatype jserror = Error string | TypeError string | DOMException string

text \<open>
  A promise either never settles, is fulfilled with a value, or is rejected with an
  error.
\<close>

datatype 'a outcome = Pending | Resolved 'a | Rejected jserror

text \<open>
  The arguments of the public entry points are arbitrary JavaScript values. \<open>JSStringObject\<close>
  is a boxed \<^verbatim>\<open>new String(...)\<close>, which \<^verbatim>\<open>_isString\<close> accepts through \<^verbatim>\<open>instanceof\<close>.
\<close>

datatype jsval =
    JSUndefined
  | JSNull
  | JSBool bool
  | JSNumber int
  | JSString string
  | JSStringObject string
  | JSObject

fun isString :: "jsval \<Rightarrow> bool" where
  "isString (JSString s) = True"
| "isString (JSStringObject s) = True"
| "isString v = False"

subsection \<open>Numbers in messages\<close>

text \<open>
  \<^verbatim>\<open>'...' + code\<close> renders an integer in decimal (JavaScript does so for every integer
  below \<open>10\<^sup>2\<^sup>1\<close>), and \<^verbatim>\<open>null\<close> as the word \<^verbatim>\<open>null\<close>.
\<close>

definition digit :: "nat \<Rightarrow> char" where
  "digit n = ''0123456789'' ! (n mod 10)"

function show_nat :: "nat \<Rightarrow> string" where
  "show_nat n = (if n < 10 then [digit n] else show_nat (n div 10) @ [digit n])"
  by pat_completeness auto
termination
  by (relation "measure id") auto

definition show_int :: "int \<Rightarrow> string" where
  "show_int i = (if i < 0 then CHR ''-'' # show_nat (nat (- i)) else show_nat (nat i))"

fun show_code :: "int option \<Rightarrow> string" where
  "show_code None = ''null''"
| "show_code (Some c) = show_int c"

subsection \<open>The environment\<close>

text \<open>
  The two module-level flags \<^verbatim>\<open>_isBrowser\<close> and \<^verbatim>\<open>_isNode\<close> are computed independently
  (a jsdom or Electron process sets both). The other fields are the feature probes the
  code makes on \<^verbatim>\<open>navigator\<close>, and \<^verbatim>\<open>process.platform\<close>.
\<close>

record env =
  isBrowser :: bool
  isNode :: bool
  hasNavigator :: bool
  hasClipboard :: bool
  hasWriteText :: bool
  hasPermissions :: bool
  hasPermissionsQuery :: bool
  platform :: string

definition isClipboardAPIAvailable :: "env \<Rightarrow> bool" where
  "isClipboardAPIAvailable e \<longleftrightarrow>
     isBrowser e \<and> hasNavigator e \<and> hasClipboard e \<and> hasWriteText e"

subsection \<open>What the platform does\<close>

text \<open>
  A spawned process is seen through the events it emits, in order. \<^verbatim>\<open>spawn\<close> itself may
  throw; a missing binary is reported by Node as an \<^verbatim>\<open>'error'\<close> event. The exit code of
  \<^verbatim>\<open>'close'\<close> is \<^verbatim>\<open>null\<close> when the process was killed by a signal.
\<close>

datatype proc_event = DataEvent string | ErrorEvent string | CloseEvent "int option"

datatype spawn_result = SpawnThrows string | Spawned "proc_event list"

datatype exec_result = ExecReturns bool | ExecThrows

datatype container = Body | Custom string

text \<open>
  The answer of \<^verbatim>\<open>navigator.permissions.query\<close>: the call throws, or returns a promise
  for a status object, given by its \<^verbatim>\<open>state\<close>; \<open>None\<close> is a \<^verbatim>\<open>null\<close> result, whose
  \<^verbatim>\<open>.state\<close> cannot be read.
\<close>

datatype query_result = QueryThrows jserror | QueryReturns "string option outcome"

text \<open>
  The behaviour of the platform during one attempt of an operation; \<open>settleTime\<close> is the
  time in milliseconds the attempt takes to settle, when it settles. \<open>stdinWrite v\<close> is what
  \<^verbatim>\<open>proc.stdin.write(v)\<close> does: \<open>None\<close> when the stream takes the value, and the message of
  the exception when it throws. Node's streams take a primitive string or a byte buffer and
  throw on any other value, a boxed \<^verbatim>\<open>String\<close> among them.
\<close>

record 'a platform_calls =
  writeText :: "'a \<Rightarrow> unit outcome"
  execCommand :: "string \<Rightarrow> exec_result"
  spawnProc :: "string \<Rightarrow> string list \<Rightarrow> spawn_result"
  stdinWrite :: "'a \<Rightarrow> string option"
  permissionsQuery :: "string \<Rightarrow> query_result"
  settleTime :: nat

text \<open>
  What an operation does is recorded in the order it happens: the platform calls it makes
  and the rejections and process events its handlers receive.
\<close>

datatype 'a effect =
    ClipboardWriteText 'a
  | Caught jserror
  | ExecCommand string 'a container
  | Spawn string "string list"
  | StdinWrite 'a
  | ProcError string string
  | ProcClose string "int option"
  | PermissionsQuery string

type_synonym ('a, 'b) io = "'a effect list \<times> 'b outcome"

definition resolvedPromise :: "'b \<Rightarrow> ('a, 'b) io" where
  "resolvedPromise v = ([], Resolved v)"

definition rejectedPromise :: "jserror \<Rightarrow> ('a, 'b) io" where
  "rejectedPromise e = ([], Rejected e)"

text \<open>\<^verbatim>\<open>p.then(f)\<close>: \<open>f\<close> runs once \<open>p\<close> is fulfilled, and its promise is adopted.\<close>

definition then_promise :: "('a, 'b) io \<Rightarrow> ('b \<Rightarrow> ('a, 'c) io) \<Rightarrow> ('a, 'c) io" where
  "then_promise p f =
     (case snd p of
        Resolved v \<Rightarrow> (fst p @ fst (f v), snd (f v))
      | Rejected e \<Rightarrow> (fst p, Rejected e)
      | Pending \<Rightarrow> (fst p, Pending))"

text \<open>\<^verbatim>\<open>p.catch(h)\<close>: \<open>h\<close> runs once \<open>p\<close> is rejected, and receives the error.\<close>

definition catch_promise :: "('a, 'b) io \<Rightarrow> (jserror \<Rightarrow> ('a, 'b) io) \<Rightarrow> ('a, 'b) io" where
  "catch_promise p h =
     (case snd p of
        Rejected e \<Rightarrow> (fst p @ Caught e # fst (h e), snd (h e))
      | Resolved v \<Rightarrow> (fst p, Resolved v)
      | Pending \<Rightarrow> (fst p, Pending))"

section \<open>The OS process adapter\<close>

text \<open>
  Both handlers of a spawned process are guarded by the flag \<^verbatim>\<open>finished\<close>, which the first
  of them to run sets: the first \<^verbatim>\<open>'error'\<close> or \<^verbatim>\<open>'close'\<close> event decides what the promise
  becomes and every later one is ignored. A writing process has its output discarded, so
  \<open>DataEvent\<close> has no handler there. \<open>p\<close> is the promise so far: it stays pending when the
  process emits neither event.

  The handlers are registered before the text is written. When \<^verbatim>\<open>proc.stdin.write(text)\<close>
  throws, the \<^verbatim>\<open>catch\<close> of the \<^verbatim>\<open>try\<close> block rejects the promise at once; the handlers
  still run on the events that follow, but a settled promise stays as it is.
\<close>

fun on_events ::
  "(string \<Rightarrow> ('a, 'b) io) \<Rightarrow> (int option \<Rightarrow> ('a, 'b) io) \<Rightarrow> bool \<Rightarrow> ('a, 'b) io \<Rightarrow>
   proc_event list \<Rightarrow> ('a, 'b) io"
where
  "on_events onError onClose finished p [] = p"
| "on_events onError onClose finished p (DataEvent chunk # evs) =
     on_events onError onClose finished p evs"
| "on_events onError onClose finished p (ErrorEvent msg # evs) =
     (if \<not> finished then on_events onError onClose True (onError msg) evs
      else on_events onError onClose finished p evs)"
| "on_events onError onClose finished p (CloseEvent code # evs) =
     (if \<not> finished then on_events onError onClose True (onClose code) evs
      else on_events onError onClose finished p evs)"

definition nodeClipboardCopyFallback :: "'a platform_calls \<Rightarrow> 'a \<Rightarrow> ('a, 'a) io" where
  "nodeClipboardCopyFallback w text =
     (case spawnProc w ''xsel'' [''--clipboard'', ''--input''] of
        SpawnThrows msg \<Rightarrow>
          ([Spawn ''xsel'' [''--clipboard'', ''--input'']],
           Rejected (Error (''Failed to spawn xsel: '' @ msg)))
      | Spawned evs \<Rightarrow>
          (let r = on_events
                 (\<lambda>msg. ([ProcError ''xsel'' msg],
                    Rejected (Error
                      (''No clipboard command available. Install xclip or xsel. '' @ msg))))
                 (\<lambda>code. ([ProcClose ''xsel'' code],
                    if code = Some 0 then Resolved text
                    else Rejected (Error (''xsel exited with code: '' @ show_code code))))
                 False ([], Pending) evs
           in case stdinWrite w text of
                Some msg \<Rightarrow>
                  (Spawn ''xsel'' [''--clipboard'', ''--input''] # StdinWrite text # fst r,
                   Rejected (Error (''Failed to spawn xsel: '' @ msg)))
              | None \<Rightarrow>
                  (Spawn ''xsel'' [''--clipboard'', ''--input''] # StdinWrite text # fst r,
                   snd r)))"

definition copyCommand :: "string \<Rightarrow> string \<times> string list" where
  "copyCommand p =
     (if p = ''win32'' then (''clip'', [])
      else if p = ''darwin'' then (''pbcopy'', [])
      else (''xclip'', [''-selection'', ''clipboard'']))"

definition nodeClipboardCopy :: "env \<Rightarrow> 'a platform_calls \<Rightarrow> 'a \<Rightarrow> ('a, 'a) io" where
  "nodeClipboardCopy e w text =
     (if \<not> isNode e then rejectedPromise (Error ''Not running in Node.js environment'')
      else
        let cmd = fst (copyCommand (platform e)); args = snd (copyCommand (platform e)) in
        case spawnProc w cmd args of
          SpawnThrows msg \<Rightarrow>
            ([Spawn cmd args],
             Rejected (Error (''Failed to spawn clipboard process: '' @ msg)))
        | Spawned evs \<Rightarrow>
            (let r = on_events
                   (\<lambda>msg.
                      if platform e \<noteq> ''win32'' \<and> platform e \<noteq> ''darwin''
                      then (ProcError cmd msg # fst (nodeClipboardCopyFallback w text),
                            snd (nodeClipboardCopyFallback w text))
                      else ([ProcError cmd msg],
                            Rejected (Error
                              (''Clipboard command failed: '' @ cmd @ '' - '' @ msg))))
                   (\<lambda>code. ([ProcClose cmd code],
                      if code = Some 0 then Resolved text
                      else Rejected (Error
                        (''Clipboard command exited with code: '' @ show_code code))))
                   False ([], Pending) evs
             in case stdinWrite w text of
                  Some msg \<Rightarrow>
                    (Spawn cmd args # StdinWrite text # fst r,
                     Rejected (Error (''Failed to spawn clipboard process: '' @ msg)))
                | None \<Rightarrow> (Spawn cmd args # StdinWrite text # fst r, snd r)))"

subsection \<open>Reading\<close>

text \<open>
  \<^verbatim>\<open>output.replace(/\r?\n$/, '')\<close>: the pattern has no flag, so \<^verbatim>\<open>$\<close> is the end of the
  input, and \<^verbatim>\<open>replace\<close> rewrites the leftmost match only. A match at a position is the
  rest of the string being \<^verbatim>\<open>\r\n\<close> or \<^verbatim>\<open>\n\<close>; the search tries the positions from the left.
\<close>

definition matches_eol :: "string \<Rightarrow> bool" where
  "matches_eol s \<longleftrightarrow> s = [CHR 0x0D, CHR 0x0A] \<or> s = [CHR 0x0A]"

fun replace_eol :: "string \<Rightarrow> string" where
  "replace_eol [] = []"
| "replace_eol (c # cs) = (if matches_eol (c # cs) then [] else c # replace_eol cs)"

text \<open>
  The sentence of the specification: one trailing line terminator, \<^verbatim>\<open>\r\n\<close> or \<^verbatim>\<open>\n\<close>, is
  removed if one is present.
\<close>

definition strip_one_terminator :: "string \<Rightarrow> string" where
  "strip_one_terminator s =
     (if 2 \<le> length s \<and> drop (length s - 2) s = [CHR 0x0D, CHR 0x0A]
      then take (length s - 2) s
      else if s \<noteq> [] \<and> last s = CHR 0x0A then butlast s
      else s)"

text \<open>
  The reading handlers: every \<^verbatim>\<open>'data'\<close> chunk is appended to \<^verbatim>\<open>output\<close>, and the first
  \<^verbatim>\<open>'error'\<close> or \<^verbatim>\<open>'close'\<close> decides, under the same flag.
\<close>

fun read_events ::
  "(string \<Rightarrow> ('a, 'b) io) \<Rightarrow> (int option \<Rightarrow> string \<Rightarrow> ('a, 'b) io) \<Rightarrow> bool \<Rightarrow> string \<Rightarrow>
   ('a, 'b) io \<Rightarrow> proc_event list \<Rightarrow> ('a, 'b) io"
where
  "read_events onError onClose finished output p [] = p"
| "read_events onError onClose finished output p (DataEvent chunk # evs) =
     read_events onError onClose finished (output @ chunk) p evs"
| "read_events onError onClose finished output p (ErrorEvent msg # evs) =
     (if \<not> finished then read_events onError onClose True output (onError msg) evs
      else read_events onError onClose finished output p evs)"
| "read_events onError onClose finished output p (CloseEvent code # evs) =
     (if \<not> finished then read_events onError onClose True output (onClose code output) evs
      else read_events onError onClose finished output p evs)"

definition nodeClipboardReadFallback :: "'a platform_calls \<Rightarrow> ('a, string) io" where
  "nodeClipboardReadFallback w =
     (case spawnProc w ''xsel'' [''--clipboard'', ''--output''] of
        SpawnThrows msg \<Rightarrow>
          ([Spawn ''xsel'' [''--clipboard'', ''--output'']],
           Rejected (Error (''Failed to spawn xsel for read: '' @ msg)))
      | Spawned evs \<Rightarrow>
          (let r = read_events
                 (\<lambda>msg. ([ProcError ''xsel'' msg],
                    Rejected (Error
                      (''No clipboard read command available. Install xclip or xsel. '' @ msg))))
                 (\<lambda>code output. ([ProcClose ''xsel'' code],
                    if code = Some 0 then Resolved output
                    else Rejected (Error (''xsel read exited with code: '' @ show_code code))))
                 False [] ([], Pending) evs
           in (Spawn ''xsel'' [''--clipboard'', ''--output''] # fst r, snd r)))"

definition readCommand :: "string \<Rightarrow> string \<times> string list" where
  "readCommand p =
     (if p = ''win32'' then (''powershell'', [''-command'', ''Get-Clipboard''])
      else if p = ''darwin'' then (''pbpaste'', [])
      else (''xclip'', [''-selection'', ''clipboard'', ''-o'']))"

definition nodeClipboardRead :: "env \<Rightarrow> 'a platform_calls \<Rightarrow> ('a, string) io" where
  "nodeClipboardRead e w =
     (if \<not> isNode e then rejectedPromise (Error ''Not running in Node.js environment'')
      else
        let cmd = fst (readCommand (platform e)); args = snd (readCommand (platform e)) in
        case spawnProc w cmd args of
          SpawnThrows msg \<Rightarrow>
            ([Spawn cmd args],
             Rejected (Error (''Failed to spawn clipboard read process: '' @ msg)))
        | Spawned evs \<Rightarrow>
            (let r = read_events
                   (\<lambda>msg.
                      if platform e \<noteq> ''win32'' \<and> platform e \<noteq> ''darwin''
                      then (ProcError cmd msg # fst (nodeClipboardReadFallback w),
                            snd (nodeClipboardReadFallback w))
                      else ([ProcError cmd msg],
                            Rejected (Error
                              (''Clipboard read command failed: '' @ cmd @ '' - '' @ msg))))
                   (\<lambda>code output. ([ProcClose cmd code],
                      if code = Some 0
                      then Resolved (if platform e = ''win32'' then replace_eol output else output)
                      else Rejected (Error
                        (''Clipboard read command exited with code: '' @ show_code code))))
                   False [] ([], Pending) evs
             in (Spawn cmd args # fst r, snd r)))"

section \<open>The text write chain\<close>

text \<open>
  The DOM work of the legacy path (building the off-screen area, selecting it, removing it,
  clearing the selection) is done by collaborators that are taken not to throw; what
  decides is the answer of \<^verbatim>\<open>document.execCommand('copy')\<close>, where an exception counts as
  \<^verbatim>\<open>false\<close>.
\<close>

definition modernCopy :: "'a platform_calls \<Rightarrow> 'a \<Rightarrow> ('a, 'a) io" where
  "modernCopy w text =
     then_promise ([ClipboardWriteText text], writeText w text) (\<lambda>u. resolvedPromise text)"

definition legacyCopy :: "'a platform_calls \<Rightarrow> 'a \<Rightarrow> container option \<Rightarrow> ('a, 'a) io" where
  "legacyCopy w text cont =
     (let containerEl = (case cont of Some c \<Rightarrow> c | None \<Rightarrow> Body);
          succeeded = (case execCommand w ''copy'' of ExecReturns b \<Rightarrow> b | ExecThrows \<Rightarrow> False)
      in ([ExecCommand ''copy'' text containerEl],
          if succeeded then Resolved text else Rejected (Error ''execCommand copy failed'')))"

text \<open>
  The handler \<^verbatim>\<open>copyText\<close> attaches to the asynchronous write with \<^verbatim>\<open>.catch\<close>: what is
  done once that write has failed.
\<close>

definition modernCopyFailed ::
  "env \<Rightarrow> 'a platform_calls \<Rightarrow> container option \<Rightarrow> 'a \<Rightarrow> jserror \<Rightarrow> ('a, 'a) io"
where
  "modernCopyFailed e w cont text err =
     (if isBrowser e then legacyCopy w text cont
      else rejectedPromise (Error ''Clipboard API failed and no fallback available''))"

text \<open>The operation \<^verbatim>\<open>copyText\<close> hands to \<^verbatim>\<open>retryOperation\<close>: one pass over the chain.\<close>

definition copyAttempt ::
  "env \<Rightarrow> 'a platform_calls \<Rightarrow> container option \<Rightarrow> 'a \<Rightarrow> ('a, 'a) io"
where
  "copyAttempt e w cont text =
     (if isClipboardAPIAvailable e then
        catch_promise (modernCopy w text) (modernCopyFailed e w cont text)
      else if isBrowser e then legacyCopy w text cont
      else if isNode e then nodeClipboardCopy e w text
      else rejectedPromise (Error ''No clipboard method available in this environment''))"

section \<open>Retry and timeout\<close>

record options_object =
  opt_container :: "container option"
  opt_retries :: "int option"
  opt_retryDelay :: "int option"
  opt_timeout :: "int option"

datatype options = NoOptions | NumberOption int | ObjectOptions options_object

record retry_config =
  retries :: int
  retryDelay :: int
  timeout :: int

definition empty_object :: options_object where
  "empty_object =
     \<lparr>opt_container = None, opt_retries = None, opt_retryDelay = None, opt_timeout = None\<rparr>"

text \<open>\<^verbatim>\<open>options || {}\<close>: \<^verbatim>\<open>undefined\<close> and the number 0 are falsy.\<close>

fun or_empty :: "options \<Rightarrow> options" where
  "or_empty NoOptions = ObjectOptions empty_object"
| "or_empty (NumberOption n) = (if n = 0 then ObjectOptions empty_object else NumberOption n)"
| "or_empty (ObjectOptions r) = ObjectOptions r"

text \<open>\<^verbatim>\<open>opts.container\<close>: a number has no such property.\<close>

fun container_of :: "options \<Rightarrow> container option" where
  "container_of (ObjectOptions r) = opt_container r"
| "container_of opts = None"

fun parseRetryConfig :: "options \<Rightarrow> retry_config" where
  "parseRetryConfig (NumberOption n) = \<lparr>retries = n, retryDelay = 100, timeout = 0\<rparr>"
| "parseRetryConfig NoOptions = \<lparr>retries = 2, retryDelay = 100, timeout = 0\<rparr>"
| "parseRetryConfig (ObjectOptions r) =
     \<lparr>retries = (case opt_retries r of Some n \<Rightarrow> n | None \<Rightarrow> 2),
      retryDelay = (case opt_retryDelay r of Some d \<Rightarrow> d | None \<Rightarrow> 100),
      timeout = (case opt_timeout r of Some t \<Rightarrow> t | None \<Rightarrow> 0)\<rparr>"

text \<open>
  One invocation of the operation: what it did, how long it took to settle, and how it
  settled.
\<close>

record ('a, 'b) attempt =
  effects :: "'a effect list"
  elapsed :: nat
  outcome :: "'b outcome"

text \<open>
  A settled promise with the time, in milliseconds since the call, at which it settles.
\<close>

datatype 'b timed = Never | Fulfilled int 'b | Failed int jserror

text \<open>
  The steps of a retry sequence: the operation invoked at a time, and a
  \<^verbatim>\<open>setTimeout(resolve, delay)\<close> issued at a time.
\<close>

datatype ('a, 'b) step = Invoke int "('a, 'b) attempt" | Backoff int int

text \<open>
  \<^verbatim>\<open>tryOnce\<close>. The operation is a closure over the world, so its successive invocations may
  differ: \<open>fn k\<close> is what the invocation after \<open>k\<close> earlier ones does. \<open>attempt\<close> is the
  variable of that name, \<open>now\<close> the clock. Timers are taken to fire exactly when due, and a
  timer with a negative delay at once.
  Over the integers \<^verbatim>\<open>Math.pow(2, attempt - 1) * cfg.retryDelay\<close> is exact as long as the
  product is below \<open>2\<^sup>1\<^sup>0\<^sup>2\<^sup>4\<close>.
\<close>

function tryOnce ::
  "(nat \<Rightarrow> ('a, 'b) attempt) \<Rightarrow> retry_config \<Rightarrow> nat \<Rightarrow> nat \<Rightarrow> int \<Rightarrow>
   ('a, 'b) step list \<times> 'b timed"
where
  "tryOnce fn cfg calls attempt now =
     (case outcome (fn calls) of
        Pending \<Rightarrow> ([Invoke now (fn calls)], Never)
      | Resolved v \<Rightarrow> ([Invoke now (fn calls)], Fulfilled (now + int (elapsed (fn calls))) v)
      | Rejected err \<Rightarrow>
          (if int (Suc attempt) > retries cfg
           then ([Invoke now (fn calls)], Failed (now + int (elapsed (fn calls))) err)
           else
             (Invoke now (fn calls)
              # Backoff (now + int (elapsed (fn calls))) (2 ^ (Suc attempt - 1) * retryDelay cfg)
              # fst (tryOnce fn cfg (Suc calls) (Suc attempt)
                     (now + int (elapsed (fn calls))
                      + max 0 (2 ^ (Suc attempt - 1) * retryDelay cfg))),
              snd (tryOnce fn cfg (Suc calls) (Suc attempt)
                     (now + int (elapsed (fn calls))
                      + max 0 (2 ^ (Suc attempt - 1) * retryDelay cfg))))))"
  by pat_completeness auto
termination
  by (relation "measure (\<lambda>(fn, cfg, calls, attempt, now). nat (retries cfg) - attempt)") auto

declare tryOnce.simps [simp del]

text \<open>
  \<^verbatim>\<open>withTimeout\<close>. With \<^verbatim>\<open>ms <= 0\<close> the promise itself is returned. Otherwise one timer is
  set and the first of the two to settle decides; when both fall on the same millisecond
  the order is the scheduler's, \<open>timerFirst\<close>.
\<close>

definition timeoutError :: "int \<Rightarrow> jserror" where
  "timeoutError ms = Error (''Operation timed out after '' @ show_int ms @ ''ms'')"

definition withTimeout :: "bool \<Rightarrow> 'b timed \<Rightarrow> int \<Rightarrow> int list \<times> 'b timed" where
  "withTimeout timerFirst p ms =
     (if ms \<le> 0 then ([], p)
      else
        ([ms],
         case p of
           Never \<Rightarrow> Failed ms (timeoutError ms)
         | Fulfilled t v \<Rightarrow>
             if t < ms \<or> (t = ms \<and> \<not> timerFirst) then Fulfilled t v
             else Failed ms (timeoutError ms)
         | Failed t err \<Rightarrow>
             if t < ms \<or> (t = ms \<and> \<not> timerFirst) then Failed t err
             else Failed ms (timeoutError ms)))"

text \<open>
  A run of \<^verbatim>\<open>retryOperation\<close>: the steps of the retry sequence (which goes on after the
  deadline has fired, since nothing cancels it), the deadline timers set, and what the
  caller observes.
\<close>

record ('a, 'b) run =
  steps :: "('a, 'b) step list"
  deadlines :: "int list"
  observed :: "'b timed"

definition retryOperation ::
  "bool \<Rightarrow> (nat \<Rightarrow> ('a, 'b) attempt) \<Rightarrow> options \<Rightarrow> ('a, 'b) run"
where
  "retryOperation timerFirst fn config =
     (let cfg = parseRetryConfig config;
          s = tryOnce fn cfg 0 0 0;
          r = withTimeout timerFirst (snd s) (timeout cfg)
      in \<lparr>steps = fst s, deadlines = fst r, observed = snd r\<rparr>)"

section \<open>Entry points\<close>

text \<open>\<^verbatim>\<open>opts.container || (_isBrowser ? document.body : null)\<close>.\<close>

definition containerFor :: "env \<Rightarrow> options \<Rightarrow> container option" where
  "containerFor e opts =
     (case container_of opts of
        Some c \<Rightarrow> Some c
      | None \<Rightarrow> if isBrowser e then Some Body else None)"

text \<open>
  The function \<^verbatim>\<open>copyText\<close> passes to \<^verbatim>\<open>retryOperation\<close>, as an operation: its invocation
  after \<open>k\<close> earlier ones is a pass over the chain on the platform as it is then.
\<close>

definition copyPass ::
  "env \<Rightarrow> (nat \<Rightarrow> 'a platform_calls) \<Rightarrow> container option \<Rightarrow> 'a \<Rightarrow> nat \<Rightarrow> ('a, 'a) attempt"
where
  "copyPass e ws cont text k =
     \<lparr>effects = fst (copyAttempt e (ws k) cont text),
      elapsed = settleTime (ws k),
      outcome = snd (copyAttempt e (ws k) cont text)\<rparr>"

definition copyText ::
  "env \<Rightarrow> bool \<Rightarrow> (nat \<Rightarrow> 'a platform_calls) \<Rightarrow> 'a \<Rightarrow> options \<Rightarrow> ('a, 'a) run"
where
  "copyText e timerFirst ws text options =
     (let opts = or_empty options;
          cont = containerFor e opts
      in retryOperation timerFirst (copyPass e ws cont text) opts)"

text \<open>\<^verbatim>\<open>NowClipboard.copy\<close>.\<close>

definition copy ::
  "env \<Rightarrow> bool \<Rightarrow> (nat \<Rightarrow> jsval platform_calls) \<Rightarrow> jsval \<Rightarrow> options \<Rightarrow> (jsval, jsval) run"
where
  "copy e timerFirst ws text opts =
     (if \<not> isString text
      then \<lparr>steps = [], deadlines = [],
            observed = Failed 0 (TypeError ''NowClipboard.copy() expects a string argument'')\<rparr>
      else copyText e timerFirst ws text opts)"

subsection \<open>Permissions\<close>

text \<open>
  A throw of the call itself is caught by the \<^verbatim>\<open>try\<close> block. Inside \<^verbatim>\<open>.then\<close>, reading
  \<^verbatim>\<open>result.state\<close> of a \<^verbatim>\<open>null\<close> result throws, which rejects the promise that \<^verbatim>\<open>.catch\<close>
  then handles.
\<close>

definition queryClipboardPermission ::
  "env \<Rightarrow> 'a platform_calls \<Rightarrow> string \<Rightarrow> ('a, string) io"
where
  "queryClipboardPermission e w permissionName =
     (if \<not> isBrowser e \<or> \<not> hasNavigator e \<or> \<not> hasPermissions e \<or> \<not> hasPermissionsQuery e
      then resolvedPromise ''prompt''
      else
        case permissionsQuery w permissionName of
          QueryThrows err \<Rightarrow> ([PermissionsQuery permissionName], Resolved ''prompt'')
        | QueryReturns p \<Rightarrow>
            catch_promise
              (then_promise ([PermissionsQuery permissionName], p)
                 (\<lambda>result. case result of
                    None \<Rightarrow> rejectedPromise (TypeError ''Cannot read properties of null'')
                  | Some st \<Rightarrow> resolvedPromise st))
              (\<lambda>err. resolvedPromise ''prompt''))"

definition queryPermission :: "env \<Rightarrow> 'a platform_calls \<Rightarrow> string \<Rightarrow> ('a, string) io" where
  "queryPermission e w name =
     (if name \<noteq> ''read'' \<and> name \<noteq> ''write''
      then rejectedPromise (TypeError
             (''queryPermission() expects '' @ [CHR 0x22] @ ''read'' @ [CHR 0x22] @ '' or ''
              @ [CHR 0x22] @ ''write'' @ [CHR 0x22]))
      else if isNode e then resolvedPromise ''granted''
      else queryClipboardPermission e w (''clipboard-'' @ name))"

subsection \<open>Paste data\<close>

text \<open>
  Truthiness of the modelled values: \<^verbatim>\<open>undefined\<close>, \<^verbatim>\<open>null\<close>, \<^verbatim>\<open>false\<close>, the number 0 and the
  empty string are falsy; every object is truthy, a boxed string included, even an empty
  one. \<^verbatim>\<open>a || b\<close> is \<open>a\<close> when \<open>a\<close> is truthy and \<open>b\<close> otherwise.
\<close>

fun truthy :: "jsval \<Rightarrow> bool" where
  "truthy JSUndefined = False"
| "truthy JSNull = False"
| "truthy (JSBool b) = b"
| "truthy (JSNumber n) = (n \<noteq> 0)"
| "truthy (JSString s) = (s \<noteq> [])"
| "truthy (JSStringObject s) = True"
| "truthy JSObject = True"

definition js_or :: "jsval \<Rightarrow> jsval \<Rightarrow> jsval" where
  "js_or a b = (if truthy a then a else b)"

text \<open>
  The argument of \<^verbatim>\<open>parsePasteData\<close> is whatever the caller passes as \<^verbatim>\<open>clipboardData\<close>, a
  real \<^verbatim>\<open>DataTransfer\<close> or not: a falsy value, or a truthy one. Of a truthy one the code uses
  the call \<^verbatim>\<open>getData(format)\<close>, which returns some value or throws (it also throws when the
  value has no such method), and the property \<^verbatim>\<open>files\<close>: reading it or its length throws,
  or it is falsy, or it is a truthy value whose \<^verbatim>\<open>length\<close> is not a positive number, or it is
  array-like with its elements.
\<close>

datatype 'f files_prop =
    FilesThrow jserror
  | FilesFalsy
  | FilesNoLength
  | ArrayLike "'f list"

datatype 'f clipboard_data =
    NoClipboardData
  | ClipboardObject "string \<Rightarrow> jserror + jsval" "'f files_prop"

record 'f paste_data =
  pd_text :: jsval
  pd_html :: jsval
  pd_files :: "'f list"

text \<open>\<^verbatim>\<open>try { body } catch (e) { }\<close> on a state: an exception leaves the state as it was.\<close>

definition try_ignore :: "(jserror + 's) \<Rightarrow> 's \<Rightarrow> 's" where
  "try_ignore body s = (case body of Inl e \<Rightarrow> s | Inr s' \<Rightarrow> s')"

definition parsePasteData :: "'f clipboard_data \<Rightarrow> jserror + 'f paste_data" where
  "parsePasteData clipboardData =
     (let result = \<lparr>pd_text = JSString [], pd_html = JSString [], pd_files = []\<rparr> in
      case clipboardData of
        NoClipboardData \<Rightarrow> Inr result
      | ClipboardObject getData filesProp \<Rightarrow>
          (let r1 = try_ignore
                      (case getData ''text/plain'' of
                         Inl e \<Rightarrow> Inl e
                       | Inr v \<Rightarrow> Inr (result\<lparr>pd_text := js_or v (JSString [])\<rparr>))
                      result;
               r2 = try_ignore
                      (case getData ''text/html'' of
                         Inl e \<Rightarrow> Inl e
                       | Inr v \<Rightarrow> Inr (r1\<lparr>pd_html := js_or v (JSString [])\<rparr>))
                      r1;
               r3 = try_ignore
                      (case filesProp of
                         FilesThrow e \<Rightarrow> Inl e
                       | FilesFalsy \<Rightarrow> Inr r2
                       | FilesNoLength \<Rightarrow> Inr r2
                       | ArrayLike fs \<Rightarrow>
                           Inr (if length fs > 0 then r2\<lparr>pd_files := fs\<rparr> else r2))
                      r2
           in Inr r3))"

section \<open>Reading a run\<close>

text \<open>The invocations of the operation in a sequence of steps, in order.\<close>

fun invocations :: "('a, 'b) step list \<Rightarrow> ('a, 'b) attempt list" where
  "invocations [] = []"
| "invocations (Invoke t a # s) = a # invocations s"
| "invocations (Backoff t d # s) = invocations s"

section \<open>Example environments\<close>

text \<open>
  Concrete environments, platforms and operations on which the theorems below are
  instantiated: a headless Node process on a given platform; a browser page, with or
  without the asynchronous clipboard API, inside a Node process or not; a context that is
  neither; a platform on which every call succeeds at once, one whose commands are all
  missing, one that has only \<^verbatim>\<open>xsel\<close>, and one that denies the asynchronous write; a
  Node platform for arbitrary values, whose streams take primitive strings only and whose
  commands all emit the given events; a platform that stays calm from pass to pass; a
  \<^verbatim>\<open>getData\<close> that returns the number 42 for every format; an operation that always fails,
  and one that fails once and then succeeds after a given time.
\<close>

definition headless :: "string \<Rightarrow> env" where
  "headless p = \<lparr>isBrowser = False, isNode = True, hasNavigator = False, hasClipboard = False,
     hasWriteText = False, hasPermissions = False, hasPermissionsQuery = False, platform = p\<rparr>"

definition browser :: "bool \<Rightarrow> bool \<Rightarrow> env" where
  "browser api node = \<lparr>isBrowser = True, isNode = node, hasNavigator = True, hasClipboard = api,
     hasWriteText = api, hasPermissions = False, hasPermissionsQuery = False, platform = []\<rparr>"

definition bare :: env where
  "bare = \<lparr>isBrowser = False, isNode = False, hasNavigator = False, hasClipboard = False,
     hasWriteText = False, hasPermissions = False, hasPermissionsQuery = False, platform = []\<rparr>"

definition calm :: "string platform_calls" where
  "calm = \<lparr>writeText = (\<lambda>t. Resolved ()), execCommand = (\<lambda>a. ExecReturns True),
     spawnProc = (\<lambda>c a. Spawned [CloseEvent (Some 0)]), stdinWrite = (\<lambda>t. None),
     permissionsQuery = (\<lambda>n. QueryReturns (Resolved (Some ''granted''))), settleTime = 0\<rparr>"

definition missing :: "string platform_calls" where
  "missing = calm\<lparr>spawnProc := \<lambda>c a. Spawned [ErrorEvent ''spawn ENOENT'', CloseEvent (Some (- 2))]\<rparr>"

definition denied :: "string platform_calls" where
  "denied = calm\<lparr>writeText := \<lambda>t. Rejected (DOMException ''NotAllowedError'')\<rparr>"

definition exits :: "int \<Rightarrow> string platform_calls" where
  "exits c = calm\<lparr>spawnProc := \<lambda>cmd a. Spawned [CloseEvent (Some c)]\<rparr>"

definition prints :: "string list \<Rightarrow> string platform_calls" where
  "prints chunks = calm\<lparr>spawnProc := \<lambda>cmd a. Spawned (map DataEvent chunks @ [CloseEvent (Some 0)])\<rparr>"

definition only_xsel :: "proc_event list \<Rightarrow> string platform_calls" where
  "only_xsel evs = calm\<lparr>spawnProc := \<lambda>cmd a.
     if cmd = ''xsel'' then Spawned evs else Spawned [ErrorEvent ''spawn ENOENT'']\<rparr>"

fun node_stdin :: "jsval \<Rightarrow> string option" where
  "node_stdin (JSString s) = None"
| "node_stdin v = Some ''ERR_INVALID_ARG_TYPE''"

definition node_calls :: "proc_event list \<Rightarrow> jsval platform_calls" where
  "node_calls evs = \<lparr>writeText = (\<lambda>t. Resolved ()), execCommand = (\<lambda>a. ExecReturns True),
     spawnProc = (\<lambda>c a. Spawned evs), stdinWrite = node_stdin,
     permissionsQuery = (\<lambda>n. QueryReturns (Resolved (Some ''granted''))), settleTime = 0\<rparr>"

definition steady :: "nat \<Rightarrow> string platform_calls" where
  "steady k = calm"

definition always42 :: "string \<Rightarrow> jserror + jsval" where
  "always42 format = Inr (JSNumber 42)"

definition always_boom :: "nat \<Rightarrow> (unit, unit) attempt" where
  "always_boom k = \<lparr>effects = [], elapsed = 0, outcome = Rejected (Error ''boom'')\<rparr>"

definition second_time :: "nat \<Rightarrow> nat \<Rightarrow> (unit, string) attempt" where
  "second_time d k =
     (if k = 0 then \<lparr>effects = [], elapsed = 0, outcome = Rejected (Error ''busy'')\<rparr>
      else \<lparr>effects = [], elapsed = d, outcome = Resolved ''done''\<rparr>)"

definition retry_options :: "int \<Rightarrow> int \<Rightarrow> int \<Rightarrow> options" where
  "retry_options n d t =
     ObjectOptions \<lparr>opt_container = None, opt_retries = Some n, opt_retryDelay = Some d,
                    opt_timeout = Some t\<rparr>"

section \<open>Properties of the OS process adapter\<close>

lemma on_events_finished: "on_events onError onClose True p evs = p"
proof (induction evs)
  case Nil
  show ?case by simp
next
  case (Cons ev evs)
  then show ?case by (cases ev) simp_all
qed

lemma on_events_cases:
  "on_events onError onClose False ([], Pending) evs = ([], Pending)
   \<or> (\<exists>msg. on_events onError onClose False ([], Pending) evs = onError msg)
   \<or> (\<exists>code. on_events onError onClose False ([], Pending) evs = onClose code)"
proof (induction evs)
  case Nil
  show ?case by simp
next
  case (Cons ev evs)
  then show ?case by (cases ev) (auto simp: on_events_finished)
qed

lemma fallback_resolved:
  assumes "snd (nodeClipboardCopyFallback w text) = Resolved v"
  shows "v = text \<and> stdinWrite w text = None \<and> fst (nodeClipboardCopyFallback w text) \<noteq> []
    \<and> last (fst (nodeClipboardCopyFallback w text)) = ProcClose ''xsel'' (Some 0)"
proof (cases "spawnProc w ''xsel'' [''--clipboard'', ''--input'']")
  case (SpawnThrows msg)
  with assms show ?thesis by (simp add: nodeClipboardCopyFallback_def)
next
  case (Spawned evs)
  let ?onE = "\<lambda>msg. ([ProcError ''xsel'' msg],
      Rejected (Error (''No clipboard command available. Install xclip or xsel. '' @ msg)))
      :: ('a, 'a) io"
  let ?onC = "\<lambda>code. ([ProcClose ''xsel'' code],
      if code = Some 0 then Resolved text
      else Rejected (Error (''xsel exited with code: '' @ show_code code))) :: ('a, 'a) io"
  from assms Spawned have accepted: "stdinWrite w text = None"
    by (cases "stdinWrite w text") (simp_all add: nodeClipboardCopyFallback_def Let_def)
  from on_events_cases [of ?onE ?onC evs] assms Spawned accepted show ?thesis
    by (auto simp: nodeClipboardCopyFallback_def Let_def split: if_splits)
qed

lemma nodeClipboardCopy_resolved:
  assumes res: "snd (nodeClipboardCopy e w text) = Resolved v"
  shows "v = text \<and> stdinWrite w text = None
    \<and> (\<exists>cmd. last (fst (nodeClipboardCopy e w text)) = ProcClose cmd (Some 0))"
proof -
  let ?cmd = "fst (copyCommand (platform e))" and ?args = "snd (copyCommand (platform e))"
  let ?onE = "\<lambda>msg.
      if platform e \<noteq> ''win32'' \<and> platform e \<noteq> ''darwin''
      then (ProcError ?cmd msg # fst (nodeClipboardCopyFallback w text),
            snd (nodeClipboardCopyFallback w text))
      else ([ProcError ?cmd msg],
            Rejected (Error (''Clipboard command failed: '' @ ?cmd @ '' - '' @ msg)))"
  let ?onC = "\<lambda>code. ([ProcClose ?cmd code],
      if code = Some 0 then Resolved text
      else Rejected (Error (''Clipboard command exited with code: '' @ show_code code)))
      :: ('a, 'a) io"
  from res have node: "isNode e"
    by (auto simp: nodeClipboardCopy_def rejectedPromise_def split: if_splits)
  show ?thesis
  proof (cases "spawnProc w ?cmd ?args")
    case (SpawnThrows msg)
    with res node show ?thesis by (simp add: nodeClipboardCopy_def Let_def)
  next
    case (Spawned evs2)
    from res node Spawned have accepted: "stdinWrite w text = None"
      by (cases "stdinWrite w text") (simp_all add: nodeClipboardCopy_def Let_def)
    have eq: "nodeClipboardCopy e w text =
        (Spawn ?cmd ?args # StdinWrite text # fst (on_events ?onE ?onC False ([], Pending) evs2),
         snd (on_events ?onE ?onC False ([], Pending) evs2))"
      using node Spawned accepted by (simp add: nodeClipboardCopy_def Let_def)
    from on_events_cases [of ?onE ?onC evs2] res eq accepted fallback_resolved [of w "text" v]
    show ?thesis
      by (auto split: if_splits)
  qed
qed

text \<open>
  C5, as the code has it. Let the text be one that the command's standard input takes, as
  every primitive string is. When the primary write command cannot be started (Node reports
  the missing binary through the \<^verbatim>\<open>'error'\<close> event) on a platform that is neither Windows
  nor macOS, the adapter spawns \<^verbatim>\<open>xsel --clipboard --input\<close> next and writes the same text to
  it, and what the caller gets is what this second command yields; when \<^verbatim>\<open>xsel\<close> cannot be
  started either, the rejection names both \<^verbatim>\<open>xclip\<close> and \<^verbatim>\<open>xsel\<close>. On Windows and macOS the
  failure to start is final: the rejection follows at once and nothing else is spawned.
  When writing the text throws, on any platform, the caller's rejection is "Failed to spawn
  clipboard process" with the exception's message and is decided at the write: what the
  commands do afterwards, the secondary one included, does not change it.
\<close>

theorem nodeClipboardCopy_spawn_failure:
  "(isNode e \<and> platform e \<noteq> ''win32'' \<and> platform e \<noteq> ''darwin'' \<and>
    spawnProc w ''xclip'' [''-selection'', ''clipboard''] = Spawned (ErrorEvent msg # evs) \<and>
    stdinWrite w text = None \<longrightarrow>
      nodeClipboardCopy e w text =
        (Spawn ''xclip'' [''-selection'', ''clipboard''] # StdinWrite text # ProcError ''xclip'' msg
           # fst (nodeClipboardCopyFallback w text),
         snd (nodeClipboardCopyFallback w text))
      \<and> hd (fst (nodeClipboardCopyFallback w text)) = Spawn ''xsel'' [''--clipboard'', ''--input'']
      \<and> (\<forall>evs2. spawnProc w ''xsel'' [''--clipboard'', ''--input''] = Spawned evs2 \<longrightarrow>
            take 2 (fst (nodeClipboardCopyFallback w text))
              = [Spawn ''xsel'' [''--clipboard'', ''--input''], StdinWrite text])
      \<and> (\<forall>msg2 evs2.
            spawnProc w ''xsel'' [''--clipboard'', ''--input''] = Spawned (ErrorEvent msg2 # evs2) \<longrightarrow>
            nodeClipboardCopyFallback w text =
              ([Spawn ''xsel'' [''--clipboard'', ''--input''], StdinWrite text,
                ProcError ''xsel'' msg2],
               Rejected (Error
                 (''No clipboard command available. Install xclip or xsel. '' @ msg2)))))
   \<and> (isNode e \<and> (platform e = ''win32'' \<or> platform e = ''darwin'') \<and>
        spawnProc w (fst (copyCommand (platform e))) (snd (copyCommand (platform e)))
          = Spawned (ErrorEvent msg # evs) \<and>
        stdinWrite w text = None \<longrightarrow>
        nodeClipboardCopy e w text =
          ([Spawn (fst (copyCommand (platform e))) [], StdinWrite text,
            ProcError (fst (copyCommand (platform e))) msg],
           Rejected (Error (''Clipboard command failed: '' @ fst (copyCommand (platform e))
                            @ '' - '' @ msg))))
   \<and> (isNode e \<and>
        spawnProc w (fst (copyCommand (platform e))) (snd (copyCommand (platform e)))
          = Spawned evs0 \<and>
        stdinWrite w text = Some thrown \<longrightarrow>
        snd (nodeClipboardCopy e w text)
          = Rejected (Error (''Failed to spawn clipboard process: '' @ thrown)))"
  by (auto simp: nodeClipboardCopy_def nodeClipboardCopyFallback_def copyCommand_def Let_def
      on_events_finished split: spawn_result.splits)

theorem nodeClipboardCopy_spawn_failure_witness:
  "isNode (headless ''linux'') \<and> platform (headless ''linux'') \<noteq> ''win32''
   \<and> platform (headless ''linux'') \<noteq> ''darwin''
   \<and> spawnProc missing ''xclip'' [''-selection'', ''clipboard'']
       = Spawned (ErrorEvent ''spawn ENOENT'' # [CloseEvent (Some (- 2))])
   \<and> stdinWrite missing ''hello'' = None
   \<and> nodeClipboardCopy (headless ''linux'') missing ''hello'' =
       ([Spawn ''xclip'' [''-selection'', ''clipboard''], StdinWrite ''hello'',
         ProcError ''xclip'' ''spawn ENOENT'',
         Spawn ''xsel'' [''--clipboard'', ''--input''], StdinWrite ''hello'',
         ProcError ''xsel'' ''spawn ENOENT''],
        Rejected (Error
          ''No clipboard command available. Install xclip or xsel. spawn ENOENT''))
   \<and> isNode (headless ''win32'')
   \<and> nodeClipboardCopy (headless ''win32'') missing ''hello'' =
       ([Spawn ''clip'' [], StdinWrite ''hello'', ProcError ''clip'' ''spawn ENOENT''],
        Rejected (Error ''Clipboard command failed: clip - spawn ENOENT''))
   \<and> stdinWrite (calm\<lparr>stdinWrite := \<lambda>t. Some ''EPIPE''\<rparr>) ''hello'' = Some ''EPIPE''
   \<and> snd (nodeClipboardCopy (headless ''win32'') (calm\<lparr>stdinWrite := \<lambda>t. Some ''EPIPE''\<rparr>)
         ''hello'')
       = Rejected (Error ''Failed to spawn clipboard process: EPIPE'')"
  using nodeClipboardCopy_spawn_failure [of "headless ''linux''" missing "''spawn ENOENT''"
      "[CloseEvent (Some (- 2))]" "''hello''" "[]" "[]"]
    nodeClipboardCopy_spawn_failure [of "headless ''win32''" missing "''spawn ENOENT''"
      "[CloseEvent (Some (- 2))]" "''hello''" "[]" "[]"]
    nodeClipboardCopy_spawn_failure [of "headless ''win32''"
      "calm\<lparr>stdinWrite := \<lambda>t. Some ''EPIPE''\<rparr>" "[]" "[]" "''hello''"
      "[CloseEvent (Some 0)]" "''EPIPE''"]
  by (simp add: headless_def missing_def calm_def copyCommand_def)

text \<open>
  The claim as it was stated, for every text, fails at a boxed \<^verbatim>\<open>String\<close>, which
  \<^verbatim>\<open>NowClipboard.copy\<close> admits: on a Linux Node process where neither command can be
  started, the write to \<^verbatim>\<open>xclip\<close> throws and the caller is rejected with "Failed to spawn
  clipboard process", which is not the outcome of \<^verbatim>\<open>xsel\<close> and names neither command.
\<close>

theorem nodeClipboardCopy_spawn_failure_counterexample:
  "isString (JSStringObject ''hello'')
   \<and> isNode (headless ''linux'')
   \<and> spawnProc (node_calls [ErrorEvent ''spawn ENOENT'']) ''xclip'' [''-selection'', ''clipboard'']
       = Spawned [ErrorEvent ''spawn ENOENT'']
   \<and> spawnProc (node_calls [ErrorEvent ''spawn ENOENT'']) ''xsel'' [''--clipboard'', ''--input'']
       = Spawned [ErrorEvent ''spawn ENOENT'']
   \<and> snd (nodeClipboardCopy (headless ''linux'') (node_calls [ErrorEvent ''spawn ENOENT''])
         (JSStringObject ''hello''))
       = Rejected (Error ''Failed to spawn clipboard process: ERR_INVALID_ARG_TYPE'')
   \<and> snd (nodeClipboardCopy (headless ''linux'') (node_calls [ErrorEvent ''spawn ENOENT''])
         (JSString ''hello''))
       = Rejected (Error
           ''No clipboard command available. Install xclip or xsel. spawn ENOENT'')"
  by (simp add: headless_def node_calls_def copyCommand_def nodeClipboardCopy_def
      nodeClipboardCopyFallback_def Let_def)

text \<open>
  C6, as the code has it. Let the text be one that the command's standard input takes, as
  every primitive string is. Then the adapter's write resolves with the text it was given
  when the spawned command closes with exit code 0, and rejects with an error whose message
  carries the code when it closes with any other code; so it is for the primary command and
  for the secondary one. When writing the text throws, the write is rejected with "Failed
  to spawn clipboard process" and the exception's message, whatever the exit code. The
  write never resolves on a non-zero exit: whenever it resolves, the text was taken, the
  value is the original text and the last thing that happened is a close with code 0.
\<close>

theorem nodeClipboardCopy_exit_code:
  "(isNode e \<and>
    spawnProc w (fst (copyCommand (platform e))) (snd (copyCommand (platform e)))
      = Spawned (CloseEvent code # evs) \<and>
    stdinWrite w text = None \<longrightarrow>
    snd (nodeClipboardCopy e w text) =
      (if code = Some 0 then Resolved text
       else Rejected (Error (''Clipboard command exited with code: '' @ show_code code))))
   \<and> (isNode e \<and> platform e \<noteq> ''win32'' \<and> platform e \<noteq> ''darwin'' \<and>
       spawnProc w ''xclip'' [''-selection'', ''clipboard''] = Spawned (ErrorEvent msg # evs) \<and>
       spawnProc w ''xsel'' [''--clipboard'', ''--input''] = Spawned (CloseEvent code # evs2) \<and>
       stdinWrite w text = None \<longrightarrow>
       snd (nodeClipboardCopy e w text) =
         (if code = Some 0 then Resolved text
          else Rejected (Error (''xsel exited with code: '' @ show_code code))))
   \<and> (isNode e \<and>
       spawnProc w (fst (copyCommand (platform e))) (snd (copyCommand (platform e)))
         = Spawned (CloseEvent code # evs) \<and>
       stdinWrite w text = Some thrown \<longrightarrow>
       snd (nodeClipboardCopy e w text)
         = Rejected (Error (''Failed to spawn clipboard process: '' @ thrown)))
   \<and> (\<forall>v. snd (nodeClipboardCopy e w text) = Resolved v \<longrightarrow>
          v = text \<and> stdinWrite w text = None
          \<and> (\<exists>cmd. last (fst (nodeClipboardCopy e w text)) = ProcClose cmd (Some 0)))"
proof (intro conjI allI impI, goal_cases)
  case 1
  then show ?case
    by (simp add: nodeClipboardCopy_def Let_def on_events_finished)
next
  case 2
  then show ?case
    by (simp add: nodeClipboardCopy_def nodeClipboardCopyFallback_def copyCommand_def Let_def
        on_events_finished)
next
  case 3
  then show ?case
    by (simp add: nodeClipboardCopy_def Let_def)
next
  case (4 v)
  then show ?case using nodeClipboardCopy_resolved [of e w "text" v] by simp
next
  case (5 v)
  then show ?case using nodeClipboardCopy_resolved [of e w "text" v] by simp
next
  case (6 v)
  then show ?case using nodeClipboardCopy_resolved [of e w "text" v] by simp
qed

theorem nodeClipboardCopy_exit_code_witness:
  "isNode (headless ''linux'')
   \<and> spawnProc (exits 1) (fst (copyCommand (platform (headless ''linux''))))
        (snd (copyCommand (platform (headless ''linux'')))) = Spawned [CloseEvent (Some 1)]
   \<and> stdinWrite (exits 1) ''hello'' = None
   \<and> nodeClipboardCopy (headless ''linux'') (exits 1) ''hello''
      = ([Spawn ''xclip'' [''-selection'', ''clipboard''], StdinWrite ''hello'',
          ProcClose ''xclip'' (Some 1)],
         Rejected (Error ''Clipboard command exited with code: 1''))
   \<and> nodeClipboardCopy (headless ''darwin'') (exits 0) ''hello''
      = ([Spawn ''pbcopy'' [], StdinWrite ''hello'', ProcClose ''pbcopy'' (Some 0)],
         Resolved ''hello'')
   \<and> spawnProc (only_xsel [CloseEvent (Some 1)]) ''xclip'' [''-selection'', ''clipboard'']
      = Spawned [ErrorEvent ''spawn ENOENT'']
   \<and> spawnProc (only_xsel [CloseEvent (Some 1)]) ''xsel'' [''--clipboard'', ''--input'']
      = Spawned [CloseEvent (Some 1)]
   \<and> snd (nodeClipboardCopy (headless ''linux'') (only_xsel [CloseEvent (Some 1)]) ''hello'')
      = Rejected (Error ''xsel exited with code: 1'')
   \<and> stdinWrite ((exits 0)\<lparr>stdinWrite := \<lambda>t. Some ''EPIPE''\<rparr>) ''hello'' = Some ''EPIPE''
   \<and> snd (nodeClipboardCopy (headless ''darwin'') ((exits 0)\<lparr>stdinWrite := \<lambda>t. Some ''EPIPE''\<rparr>)
        ''hello'')
      = Rejected (Error ''Failed to spawn clipboard process: EPIPE'')"
  using
    nodeClipboardCopy_exit_code [of "headless ''linux''" "exits 1" "Some 1" "[]" "''hello''"
      "[]" "[]" "[]"]
    nodeClipboardCopy_exit_code [of "headless ''darwin''" "exits 0" "Some 0" "[]" "''hello''"
      "[]" "[]" "[]"]
    nodeClipboardCopy_exit_code [of "headless ''linux''" "only_xsel [CloseEvent (Some 1)]"
      "Some 1" "[]" "''hello''" "''spawn ENOENT''" "[]" "[]"]
    nodeClipboardCopy_exit_code [of "headless ''darwin''"
      "(exits 0)\<lparr>stdinWrite := \<lambda>t. Some ''EPIPE''\<rparr>" "Some 0" "[]" "''hello''"
      "[]" "[]" "''EPIPE''"]
  by (simp add: headless_def exits_def only_xsel_def calm_def copyCommand_def show_int_def
      digit_def nodeClipboardCopy_def Let_def)

text \<open>
  The claim as it was stated, for every text, fails at a boxed \<^verbatim>\<open>String\<close>, which
  \<^verbatim>\<open>NowClipboard.copy\<close> admits: the command closes with exit code 0 and the write is
  rejected, where the same characters as a primitive string are resolved.
\<close>

theorem nodeClipboardCopy_exit_code_counterexample:
  "isString (JSStringObject ''hello'')
   \<and> isNode (headless ''linux'')
   \<and> spawnProc (node_calls [CloseEvent (Some 0)])
        (fst (copyCommand (platform (headless ''linux''))))
        (snd (copyCommand (platform (headless ''linux'')))) = Spawned [CloseEvent (Some 0)]
   \<and> snd (nodeClipboardCopy (headless ''linux'') (node_calls [CloseEvent (Some 0)])
         (JSStringObject ''hello''))
       = Rejected (Error ''Failed to spawn clipboard process: ERR_INVALID_ARG_TYPE'')
   \<and> snd (nodeClipboardCopy (headless ''linux'') (node_calls [CloseEvent (Some 0)])
         (JSString ''hello''))
       = Resolved (JSString ''hello'')"
  by (simp add: headless_def node_calls_def copyCommand_def nodeClipboardCopy_def Let_def)

subsection \<open>Reading\<close>

lemma replace_eol_snoc_other:
  "c \<noteq> CHR 0x0A \<Longrightarrow> replace_eol (s @ [c]) = s @ [c]"
  by (induction s) (auto simp: matches_eol_def)

lemma replace_eol_crlf: "replace_eol (s @ [CHR 0x0D, CHR 0x0A]) = s"
  by (induction s) (auto simp: matches_eol_def)

lemma replace_eol_lf: "c \<noteq> CHR 0x0D \<Longrightarrow> replace_eol (s @ [c, CHR 0x0A]) = s @ [c]"
  by (induction s) (auto simp: matches_eol_def)

lemma list_end_cases:
  obtains "s = []" | c where "s = [c]" | t a b where "s = t @ [a, b]"
proof (cases s rule: rev_cases)
  case Nil
  then show ?thesis using that by simp
next
  case (snoc ys y)
  then show ?thesis
    using that by (cases ys rule: rev_cases) auto
qed

text \<open>The replacement the code makes is the removal the specification describes.\<close>

lemma replace_eol_strip: "replace_eol s = strip_one_terminator s"
proof (cases s rule: list_end_cases)
  case 1
  then show ?thesis by (simp add: strip_one_terminator_def)
next
  case (2 c)
  then show ?thesis by (simp add: strip_one_terminator_def matches_eol_def)
next
  case (3 t a b)
  show ?thesis
  proof (cases "b = CHR 0x0A")
    case False
    then show ?thesis
      using 3 replace_eol_snoc_other [of b "t @ [a]"]
      by (simp add: strip_one_terminator_def)
  next
    case True
    show ?thesis
    proof (cases "a = CHR 0x0D")
      case True
      with \<open>b = CHR 0x0A\<close> 3 show ?thesis
        using replace_eol_crlf [of t] by (simp add: strip_one_terminator_def)
    next
      case False
      with \<open>b = CHR 0x0A\<close> 3 show ?thesis
        using replace_eol_lf [of a t] by (simp add: strip_one_terminator_def butlast_append)
    qed
  qed
qed

lemma read_events_finished: "read_events onError onClose True out p evs = p"
proof (induction evs arbitrary: out)
  case Nil
  show ?case by simp
next
  case (Cons ev evs)
  then show ?case by (cases ev) simp_all
qed

lemma read_events_data_close:
  "read_events onError onClose False out p (map DataEvent chunks @ CloseEvent code # evs)
     = onClose code (out @ concat chunks)"
  by (induction chunks arbitrary: out) (auto simp: read_events_finished)

lemma read_events_data_error:
  "read_events onError onClose False out p (map DataEvent chunks @ ErrorEvent msg # evs)
     = onError msg"
  by (induction chunks arbitrary: out) (auto simp: read_events_finished)

text \<open>
  C7. When the read command closes with exit code 0, the adapter resolves with the
  standard output it accumulated, chunk after chunk; on Windows one trailing line
  terminator, \<^verbatim>\<open>\r\n\<close> or \<^verbatim>\<open>\n\<close>, is removed from it if there is one, and on every other
  platform it is passed on unchanged, also when it is the output of the secondary command.
\<close>

theorem nodeClipboardRead_output:
  "(isNode e \<and>
    spawnProc w (fst (readCommand (platform e))) (snd (readCommand (platform e)))
      = Spawned (map DataEvent chunks @ CloseEvent (Some 0) # evs) \<longrightarrow>
    snd (nodeClipboardRead e w) =
      Resolved (if platform e = ''win32'' then strip_one_terminator (concat chunks)
                else concat chunks))
   \<and> (isNode e \<and> platform e \<noteq> ''win32'' \<and> platform e \<noteq> ''darwin'' \<and>
       spawnProc w ''xclip'' [''-selection'', ''clipboard'', ''-o'']
         = Spawned (map DataEvent early @ ErrorEvent msg # evs) \<and>
       spawnProc w ''xsel'' [''--clipboard'', ''--output'']
         = Spawned (map DataEvent chunks @ CloseEvent (Some 0) # evs2) \<longrightarrow>
       snd (nodeClipboardRead e w) = Resolved (concat chunks))"
  by (simp add: nodeClipboardRead_def nodeClipboardReadFallback_def readCommand_def Let_def
      read_events_data_close read_events_data_error replace_eol_strip)

theorem nodeClipboardRead_output_witness:
  "isNode (headless ''win32'')
   \<and> spawnProc (prints [''ab'', [CHR ''c'', CHR 0x0D, CHR 0x0A, CHR 0x0D, CHR 0x0A]])
        (fst (readCommand (platform (headless ''win32''))))
        (snd (readCommand (platform (headless ''win32''))))
      = Spawned (map DataEvent [''ab'', [CHR ''c'', CHR 0x0D, CHR 0x0A, CHR 0x0D, CHR 0x0A]]
                 @ CloseEvent (Some 0) # [])
   \<and> snd (nodeClipboardRead (headless ''win32'')
         (prints [''ab'', [CHR ''c'', CHR 0x0D, CHR 0x0A, CHR 0x0D, CHR 0x0A]]))
      = Resolved [CHR ''a'', CHR ''b'', CHR ''c'', CHR 0x0D, CHR 0x0A]
   \<and> snd (nodeClipboardRead (headless ''win32'') (prints [[CHR ''a'', CHR 0x0A]]))
      = Resolved ''a''
   \<and> snd (nodeClipboardRead (headless ''win32'') (prints [[CHR ''a'', CHR 0x0D]]))
      = Resolved [CHR ''a'', CHR 0x0D]
   \<and> snd (nodeClipboardRead (headless ''linux'')
         (prints [''ab'', [CHR ''c'', CHR 0x0D, CHR 0x0A, CHR 0x0D, CHR 0x0A]]))
      = Resolved [CHR ''a'', CHR ''b'', CHR ''c'', CHR 0x0D, CHR 0x0A, CHR 0x0D, CHR 0x0A]
   \<and> snd (nodeClipboardRead (headless ''linux'')
         (only_xsel [DataEvent [CHR ''a'', CHR 0x0A], CloseEvent (Some 0)]))
      = Resolved [CHR ''a'', CHR 0x0A]"
  using
    nodeClipboardRead_output [of "headless ''win32''"
      "prints [''ab'', [CHR ''c'', CHR 0x0D, CHR 0x0A, CHR 0x0D, CHR 0x0A]]"
      "[''ab'', [CHR ''c'', CHR 0x0D, CHR 0x0A, CHR 0x0D, CHR 0x0A]]" "[]" "[]" "[]" "[]"]
    nodeClipboardRead_output [of "headless ''win32''" "prints [[CHR ''a'', CHR 0x0A]]"
      "[[CHR ''a'', CHR 0x0A]]" "[]" "[]" "[]" "[]"]
    nodeClipboardRead_output [of "headless ''win32''" "prints [[CHR ''a'', CHR 0x0D]]"
      "[[CHR ''a'', CHR 0x0D]]" "[]" "[]" "[]" "[]"]
    nodeClipboardRead_output [of "headless ''linux''"
      "prints [''ab'', [CHR ''c'', CHR 0x0D, CHR 0x0A, CHR 0x0D, CHR 0x0A]]"
      "[''ab'', [CHR ''c'', CHR 0x0D, CHR 0x0A, CHR 0x0D, CHR 0x0A]]" "[]" "[]" "[]" "[]"]
    nodeClipboardRead_output [of "headless ''linux''"
      "only_xsel [DataEvent [CHR ''a'', CHR 0x0A], CloseEvent (Some 0)]"
      "[[CHR ''a'', CHR 0x0A]]" "[]" "[]" "''spawn ENOENT''" "[]"]
  by (simp add: headless_def prints_def only_xsel_def calm_def readCommand_def
      strip_one_terminator_def)

section \<open>Properties of the retry sequence\<close>

lemma tryOnce_rejected_last:
  "outcome (fn calls) = Rejected err \<Longrightarrow> int (Suc attempt) > retries cfg \<Longrightarrow>
   tryOnce fn cfg calls attempt now =
     ([Invoke now (fn calls)], Failed (now + int (elapsed (fn calls))) err)"
  by (simp add: tryOnce.simps [of fn cfg calls attempt now])

lemma tryOnce_rejected_retry:
  "outcome (fn calls) = Rejected err \<Longrightarrow> \<not> int (Suc attempt) > retries cfg \<Longrightarrow>
   tryOnce fn cfg calls attempt now =
     (Invoke now (fn calls)
      # Backoff (now + int (elapsed (fn calls))) (2 ^ attempt * retryDelay cfg)
      # fst (tryOnce fn cfg (Suc calls) (Suc attempt)
             (now + int (elapsed (fn calls)) + max 0 (2 ^ attempt * retryDelay cfg))),
      snd (tryOnce fn cfg (Suc calls) (Suc attempt)
             (now + int (elapsed (fn calls)) + max 0 (2 ^ attempt * retryDelay cfg))))"
  by (simp add: tryOnce.simps [of fn cfg calls attempt now])

lemma tryOnce_hd:
  "\<exists>rest. fst (tryOnce fn cfg calls attempt now) = Invoke now (fn calls) # rest"
  by (cases "outcome (fn calls)") (auto simp: tryOnce.simps [of fn cfg calls attempt now])

text \<open>Every invocation in a sequence is an invocation of the operation.\<close>

lemma tryOnce_invokes:
  "Invoke t a \<in> set (fst (tryOnce fn cfg calls attempt now)) \<Longrightarrow> \<exists>k. a = fn k"
proof (induction fn cfg calls attempt now rule: tryOnce.induct)
  case (1 fn cfg calls attempt now)
  show ?case
  proof (cases "outcome (fn calls)")
    case Pending
    with "1.prems" show ?thesis by (auto simp: tryOnce.simps [of fn cfg calls attempt now])
  next
    case (Resolved v)
    with "1.prems" show ?thesis by (auto simp: tryOnce.simps [of fn cfg calls attempt now])
  next
    case (Rejected err)
    show ?thesis
    proof (cases "int (Suc attempt) > retries cfg")
      case True
      with Rejected "1.prems" show ?thesis
        by (auto simp: tryOnce.simps [of fn cfg calls attempt now])
    next
      case False
      with Rejected "1.prems" "1.IH" [OF Rejected False] show ?thesis
        by (auto simp: tryOnce.simps [of fn cfg calls attempt now])
    qed
  qed
qed

text \<open>A sequence ends with an invocation: its steps are odd in number.\<close>

lemma tryOnce_odd: "odd (length (fst (tryOnce fn cfg calls attempt now)))"
proof (induction fn cfg calls attempt now rule: tryOnce.induct)
  case (1 fn cfg calls attempt now)
  show ?case
  proof (cases "outcome (fn calls)")
    case Pending
    then show ?thesis by (simp add: tryOnce.simps [of fn cfg calls attempt now])
  next
    case (Resolved v)
    then show ?thesis by (simp add: tryOnce.simps [of fn cfg calls attempt now])
  next
    case (Rejected err)
    show ?thesis
    proof (cases "int (Suc attempt) > retries cfg")
      case True
      with Rejected show ?thesis by (simp add: tryOnce.simps [of fn cfg calls attempt now])
    next
      case False
      with Rejected "1.IH" [OF Rejected False] show ?thesis
        by (simp add: tryOnce.simps [of fn cfg calls attempt now])
    qed
  qed
qed

text \<open>
  An operation that fails every time, started with \<open>attempt\<close> failures counted and \<open>d\<close>
  retries left.
\<close>

lemma tryOnce_failing:
  assumes fails: "\<forall>k. \<exists>err. outcome (fn k) = Rejected err"
    and N: "retries cfg = int N"
  shows "attempt \<le> N \<Longrightarrow> d = N - attempt \<Longrightarrow>
     invocations (fst (tryOnce fn cfg calls attempt now)) = map fn [calls ..< calls + Suc d]
     \<and> (\<exists>t err. outcome (fn (calls + d)) = Rejected err
          \<and> snd (tryOnce fn cfg calls attempt now) = Failed t err)"
proof (induction d arbitrary: calls attempt now)
  case 0
  obtain err where err: "outcome (fn calls) = Rejected err" using fails by blast
  from 0 N have "int (Suc attempt) > retries cfg" by simp
  with tryOnce_rejected_last
    [where fn=fn and calls=calls and err=err and attempt=attempt and cfg=cfg and now=now] err
  show ?case by simp
next
  case (Suc d)
  obtain err where err: "outcome (fn calls) = Rejected err" using fails by blast
  from Suc.prems N have "\<not> int (Suc attempt) > retries cfg" by simp
  with err have eq: "tryOnce fn cfg calls attempt now =
     (Invoke now (fn calls)
      # Backoff (now + int (elapsed (fn calls))) (2 ^ attempt * retryDelay cfg)
      # fst (tryOnce fn cfg (Suc calls) (Suc attempt)
             (now + int (elapsed (fn calls)) + max 0 (2 ^ attempt * retryDelay cfg))),
      snd (tryOnce fn cfg (Suc calls) (Suc attempt)
             (now + int (elapsed (fn calls)) + max 0 (2 ^ attempt * retryDelay cfg))))"
    by (rule tryOnce_rejected_retry)
  have "Suc attempt \<le> N" "d = N - Suc attempt" using Suc.prems by simp_all
  from Suc.IH [OF this, of "Suc calls"] eq show ?case
    by (simp add: upt_rec [of calls])
qed

text \<open>
  The steps alternate: the \<open>j\<close>-th retry is the step at position \<open>2 * j\<close>, and the timer that
  precedes it is the step before.
\<close>

lemma tryOnce_backoff_at:
  "1 \<le> j \<Longrightarrow> 2 * j < length (fst (tryOnce fn cfg calls attempt now)) \<Longrightarrow>
   \<exists>t. fst (tryOnce fn cfg calls attempt now) ! (2 * j - 1)
          = Backoff t (retryDelay cfg * 2 ^ (attempt + j - 1))
     \<and> fst (tryOnce fn cfg calls attempt now) ! (2 * j)
          = Invoke (t + max 0 (retryDelay cfg * 2 ^ (attempt + j - 1))) (fn (calls + j))"
proof (induction j arbitrary: calls attempt now)
  case 0
  then show ?case by simp
next
  case (Suc j)
  show ?case
  proof (cases "outcome (fn calls)")
    case Pending
    with Suc.prems show ?thesis by (simp add: tryOnce.simps [of fn cfg calls attempt now])
  next
    case (Resolved v)
    with Suc.prems show ?thesis by (simp add: tryOnce.simps [of fn cfg calls attempt now])
  next
    case (Rejected err)
    show ?thesis
    proof (cases "int (Suc attempt) > retries cfg")
      case True
      from tryOnce_rejected_last
        [where fn=fn and calls=calls and err=err and attempt=attempt and cfg=cfg and now=now]
        Rejected True Suc.prems
      show ?thesis by simp
    next
      case False
      let ?now' = "now + int (elapsed (fn calls)) + max 0 (2 ^ attempt * retryDelay cfg)"
      from Rejected False have eq: "tryOnce fn cfg calls attempt now =
         (Invoke now (fn calls)
          # Backoff (now + int (elapsed (fn calls))) (2 ^ attempt * retryDelay cfg)
          # fst (tryOnce fn cfg (Suc calls) (Suc attempt) ?now'),
          snd (tryOnce fn cfg (Suc calls) (Suc attempt) ?now'))"
        by (rule tryOnce_rejected_retry)
      show ?thesis
      proof (cases j)
        case 0
        from tryOnce_hd [of fn cfg "Suc calls" "Suc attempt" ?now'] eq 0
        show ?thesis by (auto simp: mult.commute)
      next
        case (Suc i)
        with Suc.prems eq have "1 \<le> j"
          "2 * j < length (fst (tryOnce fn cfg (Suc calls) (Suc attempt) ?now'))"
          by simp_all
        from Suc.IH [OF this] eq Suc show ?thesis
          by (simp add: numeral_2_eq_2)
      qed
    qed
  qed
qed

text \<open>
  C2, as the code has it. With \<open>retries = N\<close>, an operation that fails on every invocation
  is invoked exactly \<open>N + 1\<close> times, and the retry sequence is rejected with the error of the
  last of these invocations, as it is. The caller observes that very error when no deadline
  is set (\<open>timeout \<le> 0\<close>) or the sequence ends before the deadline; when the deadline comes
  first, the caller observes the timeout error instead. With \<open>retries = 0\<close> there is one
  invocation.
\<close>

theorem retryOperation_exhausted:
  assumes "retries (parseRetryConfig config) = int N"
    and "\<forall>k. \<exists>err. outcome (fn k) = Rejected err"
  shows "invocations (steps (retryOperation timerFirst fn config)) = map fn [0 ..< Suc N]
     \<and> (\<exists>t err. outcome (fn N) = Rejected err
          \<and> snd (tryOnce fn (parseRetryConfig config) 0 0 0) = Failed t err
          \<and> (timeout (parseRetryConfig config) \<le> 0 \<or> t < timeout (parseRetryConfig config) \<longrightarrow>
               observed (retryOperation timerFirst fn config) = Failed t err)
          \<and> (0 < timeout (parseRetryConfig config) \<and> timeout (parseRetryConfig config) < t \<longrightarrow>
               observed (retryOperation timerFirst fn config)
                 = Failed (timeout (parseRetryConfig config))
                     (timeoutError (timeout (parseRetryConfig config)))))"
proof -
  from tryOnce_failing [OF assms(2) assms(1), of 0 N 0 0]
  obtain t err where inv: "invocations (fst (tryOnce fn (parseRetryConfig config) 0 0 0))
        = map fn [0 ..< Suc N]"
    and err: "outcome (fn N) = Rejected err"
    and seq: "snd (tryOnce fn (parseRetryConfig config) 0 0 0) = Failed t err"
    by auto
  have "timeout (parseRetryConfig config) \<le> 0 \<or> t < timeout (parseRetryConfig config) \<longrightarrow>
      observed (retryOperation timerFirst fn config) = Failed t err"
    using seq by (auto simp: retryOperation_def withTimeout_def Let_def)
  moreover
  have "0 < timeout (parseRetryConfig config) \<and> timeout (parseRetryConfig config) < t \<longrightarrow>
      observed (retryOperation timerFirst fn config)
        = Failed (timeout (parseRetryConfig config))
            (timeoutError (timeout (parseRetryConfig config)))"
    using seq by (auto simp: retryOperation_def withTimeout_def Let_def)
  moreover
  have "invocations (steps (retryOperation timerFirst fn config)) = map fn [0 ..< Suc N]"
    using inv by (simp add: retryOperation_def Let_def)
  ultimately show ?thesis using err seq by blast
qed

theorem retryOperation_exhausted_witness:
  "retries (parseRetryConfig (retry_options 2 100 0)) = int 2
   \<and> (\<forall>k. \<exists>err. outcome (always_boom k) = Rejected err)
   \<and> invocations (steps (retryOperation False always_boom (retry_options 2 100 0)))
       = [always_boom 0, always_boom 1, always_boom 2]
   \<and> observed (retryOperation False always_boom (retry_options 2 100 0))
       = Failed 300 (Error ''boom'')
   \<and> invocations (steps (retryOperation False always_boom (retry_options 0 100 0)))
       = [always_boom 0]"
  using retryOperation_exhausted [of "retry_options 2 100 0" 2 always_boom False]
    retryOperation_exhausted [of "retry_options 0 100 0" 0 always_boom False]
  by (simp add: retry_options_def always_boom_def retryOperation_def withTimeout_def
      tryOnce.simps Let_def)

text \<open>
  The claim as it was stated fails where a deadline is set: with \<open>retries = 2\<close>, a delay of
  100 and a timeout of 50, an operation that fails at once every time makes the caller
  observe the timeout error at 50, not the error of the third invocation.
\<close>

theorem retryOperation_exhausted_counterexample:
  "retries (parseRetryConfig (retry_options 2 100 50)) = 2
   \<and> outcome (always_boom 2) = Rejected (Error ''boom'')
   \<and> observed (retryOperation False always_boom (retry_options 2 100 50))
       = Failed 50 (Error ''Operation timed out after 50ms'')"
  by (simp add: retry_options_def always_boom_def retryOperation_def withTimeout_def
      timeoutError_def show_int_def digit_def tryOnce.simps Let_def)

text \<open>
  C3. The steps of a run alternate between invocations and timers and end with an
  invocation. For \<open>k \<ge> 1\<close>, when there is a \<open>k\<close>-th retry (the invocation at position
  \<open>2 * k\<close>), the step before it is the timer set with the delay \<open>D * 2 ^ (k - 1)\<close>, where \<open>D\<close>
  is \<open>retryDelay\<close>, and the retry starts when that timer fires. The first retry waits \<open>D\<close>.
\<close>

theorem retryOperation_backoff:
  "odd (length (steps (retryOperation timerFirst fn config)))
   \<and> (1 \<le> k \<and> 2 * k < length (steps (retryOperation timerFirst fn config)) \<longrightarrow>
        (\<exists>t. steps (retryOperation timerFirst fn config) ! (2 * k - 1)
               = Backoff t (retryDelay (parseRetryConfig config) * 2 ^ (k - 1))
           \<and> steps (retryOperation timerFirst fn config) ! (2 * k)
               = Invoke (t + max 0 (retryDelay (parseRetryConfig config) * 2 ^ (k - 1))) (fn k)))"
  using tryOnce_backoff_at [of k fn "parseRetryConfig config" 0 0 0]
    tryOnce_odd [of fn "parseRetryConfig config" 0 0 0]
  by (simp add: retryOperation_def Let_def)

theorem retryOperation_backoff_witness:
  "(1::nat) \<le> 3
   \<and> 2 * 3 < length (steps (retryOperation False always_boom (retry_options 3 100 0)))
   \<and> steps (retryOperation False always_boom (retry_options 3 100 0)) ! 1 = Backoff 0 100
   \<and> steps (retryOperation False always_boom (retry_options 3 100 0)) ! 3 = Backoff 100 200
   \<and> steps (retryOperation False always_boom (retry_options 3 100 0)) ! 5 = Backoff 300 400
   \<and> steps (retryOperation False always_boom (retry_options 3 100 0)) ! 6
       = Invoke 700 (always_boom 3)"
  using retryOperation_backoff [of False always_boom "retry_options 3 100 0" 3]
  by (simp add: retry_options_def always_boom_def retryOperation_def withTimeout_def
      tryOnce.simps Let_def)

text \<open>
  C4. The steps of a run are those of the whole retry sequence, whatever the deadline:
  nothing is cancelled. With \<open>timeout = T > 0\<close> one deadline timer is set for the whole
  sequence, however many attempts it makes, and the two race: when the sequence would be
  fulfilled, or would fail, at a time \<open>t > T\<close>, or would never settle, the caller observes
  the timeout error at \<open>T\<close>; when it settles at a time \<open>t < T\<close>, the caller observes what it
  yields, at \<open>t\<close>; when both fall on the same millisecond, the scheduler's order decides.
  With \<open>timeout \<le> 0\<close> no timer is set and the caller observes what the sequence yields,
  whenever that is: a late success is a success.
\<close>

theorem retryOperation_timeout:
  "steps (retryOperation timerFirst fn config) = fst (tryOnce fn (parseRetryConfig config) 0 0 0)
   \<and> (0 < timeout (parseRetryConfig config) \<longrightarrow>
      deadlines (retryOperation timerFirst fn config) = [timeout (parseRetryConfig config)])
   \<and> (0 < timeout (parseRetryConfig config)
       \<and> snd (tryOnce fn (parseRetryConfig config) 0 0 0) = Fulfilled t v
       \<and> timeout (parseRetryConfig config) < t \<longrightarrow>
      observed (retryOperation timerFirst fn config)
        = Failed (timeout (parseRetryConfig config))
            (Error (''Operation timed out after ''
                    @ show_int (timeout (parseRetryConfig config)) @ ''ms'')))
   \<and> (0 < timeout (parseRetryConfig config)
       \<and> snd (tryOnce fn (parseRetryConfig config) 0 0 0) = Failed t err
       \<and> timeout (parseRetryConfig config) < t \<longrightarrow>
      observed (retryOperation timerFirst fn config)
        = Failed (timeout (parseRetryConfig config))
            (Error (''Operation timed out after ''
                    @ show_int (timeout (parseRetryConfig config)) @ ''ms'')))
   \<and> (0 < timeout (parseRetryConfig config)
       \<and> snd (tryOnce fn (parseRetryConfig config) 0 0 0) = Never \<longrightarrow>
      observed (retryOperation timerFirst fn config)
        = Failed (timeout (parseRetryConfig config))
            (Error (''Operation timed out after ''
                    @ show_int (timeout (parseRetryConfig config)) @ ''ms'')))
   \<and> (0 < timeout (parseRetryConfig config)
       \<and> snd (tryOnce fn (parseRetryConfig config) 0 0 0) = Fulfilled t v
       \<and> t < timeout (parseRetryConfig config) \<longrightarrow>
      observed (retryOperation timerFirst fn config) = Fulfilled t v)
   \<and> (0 < timeout (parseRetryConfig config)
       \<and> snd (tryOnce fn (parseRetryConfig config) 0 0 0) = Failed t err
       \<and> t < timeout (parseRetryConfig config) \<longrightarrow>
      observed (retryOperation timerFirst fn config) = Failed t err)
   \<and> (0 < timeout (parseRetryConfig config)
       \<and> (snd (tryOnce fn (parseRetryConfig config) 0 0 0)
             = Fulfilled (timeout (parseRetryConfig config)) v
           \<or> snd (tryOnce fn (parseRetryConfig config) 0 0 0)
             = Failed (timeout (parseRetryConfig config)) err) \<longrightarrow>
      observed (retryOperation timerFirst fn config)
        = (if timerFirst
           then Failed (timeout (parseRetryConfig config))
                  (Error (''Operation timed out after ''
                          @ show_int (timeout (parseRetryConfig config)) @ ''ms''))
           else snd (tryOnce fn (parseRetryConfig config) 0 0 0)))
   \<and> (timeout (parseRetryConfig config) \<le> 0 \<longrightarrow>
      deadlines (retryOperation timerFirst fn config) = []
      \<and> observed (retryOperation timerFirst fn config)
          = snd (tryOnce fn (parseRetryConfig config) 0 0 0))
   \<and> (timeout (parseRetryConfig config) \<le> 0
       \<and> snd (tryOnce fn (parseRetryConfig config) 0 0 0) = Fulfilled t v \<longrightarrow>
      observed (retryOperation timerFirst fn config) = Fulfilled t v)"
proof (intro conjI)
qed (auto simp: retryOperation_def withTimeout_def timeoutError_def Let_def)

theorem retryOperation_timeout_witness:
  "0 < timeout (parseRetryConfig (retry_options 2 100 50))
   \<and> snd (tryOnce (second_time 10) (parseRetryConfig (retry_options 2 100 50)) 0 0 0)
       = Fulfilled 110 ''done''
   \<and> timeout (parseRetryConfig (retry_options 2 100 50)) < 110
   \<and> retryOperation True (second_time 10) (retry_options 2 100 50)
       = \<lparr>steps = [Invoke 0 (second_time 10 0), Backoff 0 100, Invoke 100 (second_time 10 1)],
          deadlines = [50],
          observed = Failed 50 (Error ''Operation timed out after 50ms'')\<rparr>
   \<and> 110 < timeout (parseRetryConfig (retry_options 2 100 500))
   \<and> retryOperation True (second_time 10) (retry_options 2 100 500)
       = \<lparr>steps = [Invoke 0 (second_time 10 0), Backoff 0 100, Invoke 100 (second_time 10 1)],
          deadlines = [500],
          observed = Fulfilled 110 ''done''\<rparr>
   \<and> observed (retryOperation True (second_time 10) (retry_options 2 100 110))
       = Failed 110 (Error ''Operation timed out after 110ms'')
   \<and> observed (retryOperation False (second_time 10) (retry_options 2 100 110))
       = Fulfilled 110 ''done''
   \<and> timeout (parseRetryConfig (retry_options 2 100 0)) \<le> 0
   \<and> retryOperation True (second_time 86400000) (retry_options 2 100 0)
       = \<lparr>steps = [Invoke 0 (second_time 86400000 0), Backoff 0 100,
                   Invoke 100 (second_time 86400000 1)],
          deadlines = [],
          observed = Fulfilled 86400100 ''done''\<rparr>"
  using
    retryOperation_timeout [of True "second_time 10" "retry_options 2 100 50" 110 "''done''"
      "Error []"]
    retryOperation_timeout [of True "second_time 10" "retry_options 2 100 500" 110 "''done''"
      "Error []"]
    retryOperation_timeout [of True "second_time 10" "retry_options 2 100 110" 110 "''done''"
      "Error []"]
    retryOperation_timeout [of False "second_time 10" "retry_options 2 100 110" 110 "''done''"
      "Error []"]
    retryOperation_timeout [of True "second_time 86400000" "retry_options 2 100 0" 86400100
      "''done''" "Error []"]
  by (simp add: retry_options_def second_time_def retryOperation_def withTimeout_def
      timeoutError_def show_int_def digit_def tryOnce.simps Let_def)

section \<open>Properties of the entry points\<close>

lemma tryOnce_resolved_now:
  "outcome (fn calls) = Resolved v \<Longrightarrow>
   tryOnce fn cfg calls attempt now =
     ([Invoke now (fn calls)], Fulfilled (now + int (elapsed (fn calls))) v)"
  by (simp add: tryOnce.simps [of fn cfg calls attempt now])

text \<open>
  An operation whose first \<open>j\<close> invocations fail and whose next one succeeds, with at least
  \<open>j\<close> retries left: it is invoked \<open>j + 1\<close> times and the sequence is fulfilled.
\<close>

lemma tryOnce_first_success:
  "\<forall>i<j. \<exists>err. outcome (fn (calls + i)) = Rejected err \<Longrightarrow>
   outcome (fn (calls + j)) = Resolved v \<Longrightarrow>
   int (attempt + j) \<le> retries cfg \<Longrightarrow>
   invocations (fst (tryOnce fn cfg calls attempt now)) = map fn [calls ..< calls + Suc j]
   \<and> (\<exists>t. snd (tryOnce fn cfg calls attempt now) = Fulfilled t v)"
proof (induction j arbitrary: calls attempt now)
  case 0
  then have "outcome (fn calls) = Resolved v" by simp
  from tryOnce_resolved_now [where fn=fn and calls=calls and v=v and cfg=cfg
      and attempt=attempt and now=now] this
  show ?case by simp
next
  case (Suc j)
  from Suc.prems(1) obtain err where err: "outcome (fn calls) = Rejected err"
    by (metis add.right_neutral zero_less_Suc)
  from Suc.prems(3) have "\<not> int (Suc attempt) > retries cfg" by simp
  with err have eq: "tryOnce fn cfg calls attempt now =
     (Invoke now (fn calls)
      # Backoff (now + int (elapsed (fn calls))) (2 ^ attempt * retryDelay cfg)
      # fst (tryOnce fn cfg (Suc calls) (Suc attempt)
             (now + int (elapsed (fn calls)) + max 0 (2 ^ attempt * retryDelay cfg))),
      snd (tryOnce fn cfg (Suc calls) (Suc attempt)
             (now + int (elapsed (fn calls)) + max 0 (2 ^ attempt * retryDelay cfg))))"
    by (rule tryOnce_rejected_retry)
  have a: "\<forall>i<j. \<exists>err. outcome (fn (Suc calls + i)) = Rejected err"
  proof (intro allI impI)
    fix i
    assume "i < j"
    then have "Suc i < Suc j" by simp
    with Suc.prems(1) have "\<exists>err. outcome (fn (calls + Suc i)) = Rejected err" by blast
    then show "\<exists>err. outcome (fn (Suc calls + i)) = Rejected err" by simp
  qed
  have b: "outcome (fn (Suc calls + j)) = Resolved v" using Suc.prems(2) by simp
  have c: "int (Suc attempt + j) \<le> retries cfg" using Suc.prems(3) by simp
  from Suc.IH [OF a b c] eq show ?case
    by (simp add: upt_rec [of calls])
qed

text \<open>
  C1, as the code has it. \<^verbatim>\<open>copyText\<close> is the retry controller run on passes over the chain,
  the first pass made at once. A pass goes through the mechanisms in this order. When the
  asynchronous write API is detected it is called first: its success is the result; while
  it is pending nothing else is started; its failure is handed to the handler, which falls
  back to the legacy command when a document exists and otherwise fails with "Clipboard API
  failed and no fallback available". Without the API, a document means the legacy command;
  without a document, a Node process means the OS process adapter; and with none of these
  the pass fails with "No clipboard method available in this environment". In each case
  the later mechanism starts only after the failure of the earlier one has been received.
  A pass that resolves ends the run; a pass that fails is followed by another until the
  retries are used up. The caller observes the value of the pass that resolved, or the
  error of the last pass, unless the deadline of a \<open>timeout > 0\<close> comes first: then the
  caller observes the timeout error.
\<close>

theorem copyText_chain_order:
  "(let P = copyPass e ws (containerFor e (or_empty opts)) text;
        C = parseRetryConfig (or_empty opts);
        R = copyText e timerFirst ws text opts
    in R = retryOperation timerFirst P (or_empty opts)
     \<and> (\<exists>rest. steps R = Invoke 0 (P 0) # rest)
     \<and> (outcome (P 0) = Resolved v \<longrightarrow>
          steps R = [Invoke 0 (P 0)]
          \<and> snd (tryOnce P C 0 0 0) = Fulfilled (int (elapsed (P 0))) v)
     \<and> ((\<forall>i<j. \<exists>err. outcome (P i) = Rejected err) \<and> outcome (P j) = Resolved v
          \<and> int j \<le> retries C \<longrightarrow>
          invocations (steps R) = map P [0 ..< Suc j]
          \<and> (\<exists>t. snd (tryOnce P C 0 0 0) = Fulfilled t v
                \<and> (timeout C \<le> 0 \<or> t < timeout C \<longrightarrow> observed R = Fulfilled t v)
                \<and> (0 < timeout C \<and> timeout C < t \<longrightarrow>
                     observed R = Failed (timeout C) (timeoutError (timeout C)))))
     \<and> ((\<forall>i. \<exists>err. outcome (P i) = Rejected err) \<and> retries C = int N \<longrightarrow>
          invocations (steps R) = map P [0 ..< Suc N]
          \<and> (\<exists>t err. outcome (P N) = Rejected err
                \<and> snd (tryOnce P C 0 0 0) = Failed t err
                \<and> (timeout C \<le> 0 \<or> t < timeout C \<longrightarrow> observed R = Failed t err)
                \<and> (0 < timeout C \<and> timeout C < t \<longrightarrow>
                     observed R = Failed (timeout C) (timeoutError (timeout C))))))
   \<and> (effects (copyPass e ws cont text k), outcome (copyPass e ws cont text k))
        = copyAttempt e (ws k) cont text
   \<and> elapsed (copyPass e ws cont text k) = settleTime (ws k)
   \<and> (isClipboardAPIAvailable e \<and> writeText w text = Resolved () \<longrightarrow>
        copyAttempt e w cont text = ([ClipboardWriteText text], Resolved text))
   \<and> (isClipboardAPIAvailable e \<and> writeText w text = Pending \<longrightarrow>
        copyAttempt e w cont text = ([ClipboardWriteText text], Pending))
   \<and> (isClipboardAPIAvailable e \<and> writeText w text = Rejected err \<longrightarrow>
        copyAttempt e w cont text =
          (ClipboardWriteText text # Caught err # fst (modernCopyFailed e w cont text err),
           snd (modernCopyFailed e w cont text err)))
   \<and> (isBrowser e \<longrightarrow> modernCopyFailed e w cont text err = legacyCopy w text cont)
   \<and> (\<not> isBrowser e \<longrightarrow>
        modernCopyFailed e w cont text err =
          ([], Rejected (Error ''Clipboard API failed and no fallback available'')))
   \<and> (\<not> isClipboardAPIAvailable e \<and> isBrowser e \<longrightarrow>
        copyAttempt e w cont text = legacyCopy w text cont)
   \<and> (\<not> isClipboardAPIAvailable e \<and> \<not> isBrowser e \<and> isNode e \<longrightarrow>
        copyAttempt e w cont text = nodeClipboardCopy e w text)
   \<and> (\<not> isClipboardAPIAvailable e \<and> \<not> isBrowser e \<and> \<not> isNode e \<longrightarrow>
        copyAttempt e w cont text =
          ([], Rejected (Error ''No clipboard method available in this environment'')))"
proof -
  let ?P = "copyPass e ws (containerFor e (or_empty opts)) text"
  let ?C = "parseRetryConfig (or_empty opts)"
  let ?R = "copyText e timerFirst ws text opts"
  let ?seq = "snd (tryOnce ?P ?C 0 0 0)"
  have run: "?R = retryOperation timerFirst ?P (or_empty opts)"
    by (simp add: copyText_def Let_def)
  have stp: "steps ?R = fst (tryOnce ?P ?C 0 0 0)"
    by (simp add: run retryOperation_def Let_def)
  have obs_ok: "\<And>x. timeout ?C \<le> 0 \<or> (\<exists>t. x = Fulfilled t v \<and> t < timeout ?C)
      \<or> (\<exists>t err. x = Failed t err \<and> t < timeout ?C) \<Longrightarrow> ?seq = x \<Longrightarrow> observed ?R = x"
    by (auto simp: run retryOperation_def withTimeout_def Let_def)
  have obs_late: "\<And>x. 0 < timeout ?C \<Longrightarrow> (\<exists>t. x = Fulfilled t v \<and> timeout ?C < t)
      \<or> (\<exists>t err. x = Failed t err \<and> timeout ?C < t) \<Longrightarrow> ?seq = x \<Longrightarrow>
      observed ?R = Failed (timeout ?C) (timeoutError (timeout ?C))"
    by (auto simp: run retryOperation_def withTimeout_def Let_def)
  have first: "\<exists>rest. steps ?R = Invoke 0 (?P 0) # rest"
    using tryOnce_hd [of ?P ?C 0 0 0] by (simp add: stp)
  have now: "outcome (?P 0) = Resolved v \<longrightarrow>
      steps ?R = [Invoke 0 (?P 0)] \<and> ?seq = Fulfilled (int (elapsed (?P 0))) v"
    using tryOnce_resolved_now [where fn="?P" and calls=0 and v=v and cfg="?C"
        and attempt=0 and now=0]
    by (simp add: stp)
  have success: "(\<forall>i<j. \<exists>err. outcome (?P i) = Rejected err) \<and> outcome (?P j) = Resolved v
      \<and> int j \<le> retries ?C \<longrightarrow>
      invocations (steps ?R) = map ?P [0 ..< Suc j]
      \<and> (\<exists>t. ?seq = Fulfilled t v
            \<and> (timeout ?C \<le> 0 \<or> t < timeout ?C \<longrightarrow> observed ?R = Fulfilled t v)
            \<and> (0 < timeout ?C \<and> timeout ?C < t \<longrightarrow>
                 observed ?R = Failed (timeout ?C) (timeoutError (timeout ?C))))"
  proof (intro impI)
    assume h: "(\<forall>i<j. \<exists>err. outcome (?P i) = Rejected err) \<and> outcome (?P j) = Resolved v
      \<and> int j \<le> retries ?C"
    from h have "\<forall>i<j. \<exists>err. outcome (?P (0 + i)) = Rejected err"
      and "outcome (?P (0 + j)) = Resolved v" and "int (0 + j) \<le> retries ?C"
      by simp_all
    from tryOnce_first_success [OF this, of 0]
    obtain t where inv: "invocations (fst (tryOnce ?P ?C 0 0 0)) = map ?P [0 ..< Suc j]"
      and seq: "?seq = Fulfilled t v"
      by auto
    have "timeout ?C \<le> 0 \<or> t < timeout ?C \<longrightarrow> observed ?R = Fulfilled t v"
      using obs_ok [of "Fulfilled t v"] seq by blast
    moreover have "0 < timeout ?C \<and> timeout ?C < t \<longrightarrow>
        observed ?R = Failed (timeout ?C) (timeoutError (timeout ?C))"
      using obs_late [of "Fulfilled t v"] seq by blast
    ultimately show "invocations (steps ?R) = map ?P [0 ..< Suc j]
      \<and> (\<exists>t. ?seq = Fulfilled t v
            \<and> (timeout ?C \<le> 0 \<or> t < timeout ?C \<longrightarrow> observed ?R = Fulfilled t v)
            \<and> (0 < timeout ?C \<and> timeout ?C < t \<longrightarrow>
                 observed ?R = Failed (timeout ?C) (timeoutError (timeout ?C))))"
      using inv seq by (simp add: stp)
  qed
  have failure: "(\<forall>i. \<exists>err. outcome (?P i) = Rejected err) \<and> retries ?C = int N \<longrightarrow>
      invocations (steps ?R) = map ?P [0 ..< Suc N]
      \<and> (\<exists>t err. outcome (?P N) = Rejected err
            \<and> ?seq = Failed t err
            \<and> (timeout ?C \<le> 0 \<or> t < timeout ?C \<longrightarrow> observed ?R = Failed t err)
            \<and> (0 < timeout ?C \<and> timeout ?C < t \<longrightarrow>
                 observed ?R = Failed (timeout ?C) (timeoutError (timeout ?C))))"
  proof (intro impI)
    assume h: "(\<forall>i. \<exists>err. outcome (?P i) = Rejected err) \<and> retries ?C = int N"
    then have f: "\<forall>i. \<exists>err. outcome (?P i) = Rejected err" and n: "retries ?C = int N"
      by simp_all
    from tryOnce_failing [OF f n, of 0 N 0 0]
    obtain t err where inv: "invocations (fst (tryOnce ?P ?C 0 0 0)) = map ?P [0 ..< Suc N]"
      and err: "outcome (?P N) = Rejected err"
      and seq: "?seq = Failed t err"
      by auto
    have "timeout ?C \<le> 0 \<or> t < timeout ?C \<longrightarrow> observed ?R = Failed t err"
      using obs_ok [of "Failed t err"] seq by blast
    moreover have "0 < timeout ?C \<and> timeout ?C < t \<longrightarrow>
        observed ?R = Failed (timeout ?C) (timeoutError (timeout ?C))"
      using obs_late [of "Failed t err"] seq by blast
    ultimately show "invocations (steps ?R) = map ?P [0 ..< Suc N]
      \<and> (\<exists>t err. outcome (?P N) = Rejected err
            \<and> ?seq = Failed t err
            \<and> (timeout ?C \<le> 0 \<or> t < timeout ?C \<longrightarrow> observed ?R = Failed t err)
            \<and> (0 < timeout ?C \<and> timeout ?C < t \<longrightarrow>
                 observed ?R = Failed (timeout ?C) (timeoutError (timeout ?C))))"
      using inv err seq by (auto simp: stp)
  qed
  have chain: "(effects (copyPass e ws cont text k), outcome (copyPass e ws cont text k))
        = copyAttempt e (ws k) cont text
   \<and> elapsed (copyPass e ws cont text k) = settleTime (ws k)
   \<and> (isClipboardAPIAvailable e \<and> writeText w text = Resolved () \<longrightarrow>
        copyAttempt e w cont text = ([ClipboardWriteText text], Resolved text))
   \<and> (isClipboardAPIAvailable e \<and> writeText w text = Pending \<longrightarrow>
        copyAttempt e w cont text = ([ClipboardWriteText text], Pending))
   \<and> (isClipboardAPIAvailable e \<and> writeText w text = Rejected err \<longrightarrow>
        copyAttempt e w cont text =
          (ClipboardWriteText text # Caught err # fst (modernCopyFailed e w cont text err),
           snd (modernCopyFailed e w cont text err)))
   \<and> (isBrowser e \<longrightarrow> modernCopyFailed e w cont text err = legacyCopy w text cont)
   \<and> (\<not> isBrowser e \<longrightarrow>
        modernCopyFailed e w cont text err =
          ([], Rejected (Error ''Clipboard API failed and no fallback available'')))
   \<and> (\<not> isClipboardAPIAvailable e \<and> isBrowser e \<longrightarrow>
        copyAttempt e w cont text = legacyCopy w text cont)
   \<and> (\<not> isClipboardAPIAvailable e \<and> \<not> isBrowser e \<and> isNode e \<longrightarrow>
        copyAttempt e w cont text = nodeClipboardCopy e w text)
   \<and> (\<not> isClipboardAPIAvailable e \<and> \<not> isBrowser e \<and> \<not> isNode e \<longrightarrow>
        copyAttempt e w cont text =
          ([], Rejected (Error ''No clipboard method available in this environment'')))"
    by (simp add: copyPass_def copyAttempt_def modernCopy_def modernCopyFailed_def
        catch_promise_def then_promise_def resolvedPromise_def rejectedPromise_def)
  from run first now success failure have main:
    "let P = ?P; C = ?C; R = ?R
     in R = retryOperation timerFirst P (or_empty opts)
     \<and> (\<exists>rest. steps R = Invoke 0 (P 0) # rest)
     \<and> (outcome (P 0) = Resolved v \<longrightarrow>
          steps R = [Invoke 0 (P 0)]
          \<and> snd (tryOnce P C 0 0 0) = Fulfilled (int (elapsed (P 0))) v)
     \<and> ((\<forall>i<j. \<exists>err. outcome (P i) = Rejected err) \<and> outcome (P j) = Resolved v
          \<and> int j \<le> retries C \<longrightarrow>
          invocations (steps R) = map P [0 ..< Suc j]
          \<and> (\<exists>t. snd (tryOnce P C 0 0 0) = Fulfilled t v
                \<and> (timeout C \<le> 0 \<or> t < timeout C \<longrightarrow> observed R = Fulfilled t v)
                \<and> (0 < timeout C \<and> timeout C < t \<longrightarrow>
                     observed R = Failed (timeout C) (timeoutError (timeout C)))))
     \<and> ((\<forall>i. \<exists>err. outcome (P i) = Rejected err) \<and> retries C = int N \<longrightarrow>
          invocations (steps R) = map P [0 ..< Suc N]
          \<and> (\<exists>t err. outcome (P N) = Rejected err
                \<and> snd (tryOnce P C 0 0 0) = Failed t err
                \<and> (timeout C \<le> 0 \<or> t < timeout C \<longrightarrow> observed R = Failed t err)
                \<and> (0 < timeout C \<and> timeout C < t \<longrightarrow>
                     observed R = Failed (timeout C) (timeoutError (timeout C)))))"
    unfolding Let_def by (intro conjI)
  show ?thesis by (rule conjI [OF main chain])
qed

theorem copyText_chain_order_witness:
  "copyText (browser True False) False (\<lambda>k. denied) ''hi'' NoOptions
     = \<lparr>steps = [Invoke 0 \<lparr>effects = [ClipboardWriteText ''hi'',
                                        Caught (DOMException ''NotAllowedError''),
                                        ExecCommand ''copy'' ''hi'' Body],
                             elapsed = 0, outcome = Resolved ''hi''\<rparr>],
        deadlines = [], observed = Fulfilled 0 ''hi''\<rparr>
   \<and> observed (copyText (browser True False) False
         (\<lambda>k. if k = 0 then denied\<lparr>execCommand := \<lambda>a. ExecReturns False\<rparr> else calm)
         ''hi'' NoOptions)
       = Fulfilled 100 ''hi''
   \<and> invocations (steps (copyText bare False (\<lambda>k. calm) ''hi'' (retry_options 1 100 0)))
       = [copyPass bare (\<lambda>k. calm) None ''hi'' 0, copyPass bare (\<lambda>k. calm) None ''hi'' 1]
   \<and> observed (copyText bare False (\<lambda>k. calm) ''hi'' (retry_options 1 100 0))
       = Failed 100 (Error ''No clipboard method available in this environment'')
   \<and> isClipboardAPIAvailable (browser True False)
   \<and> writeText calm ''hi'' = Resolved ()
   \<and> copyAttempt (browser True False) calm (Some Body) ''hi''
       = ([ClipboardWriteText ''hi''], Resolved ''hi'')
   \<and> writeText denied ''hi'' = Rejected (DOMException ''NotAllowedError'')
   \<and> copyAttempt (browser True False) denied (Some Body) ''hi''
       = ([ClipboardWriteText ''hi'', Caught (DOMException ''NotAllowedError''),
           ExecCommand ''copy'' ''hi'' Body], Resolved ''hi'')
   \<and> \<not> isBrowser (headless ''linux'')
   \<and> modernCopyFailed (headless ''linux'') calm None ''hi'' (DOMException ''NotAllowedError'')
       = ([], Rejected (Error ''Clipboard API failed and no fallback available''))
   \<and> \<not> isClipboardAPIAvailable (browser False False) \<and> isBrowser (browser False False)
   \<and> copyAttempt (browser False False) calm (Some Body) ''hi''
       = ([ExecCommand ''copy'' ''hi'' Body], Resolved ''hi'')
   \<and> \<not> isClipboardAPIAvailable (headless ''linux'') \<and> isNode (headless ''linux'')
   \<and> copyAttempt (headless ''linux'') calm None ''hi''
       = ([Spawn ''xclip'' [''-selection'', ''clipboard''], StdinWrite ''hi'',
           ProcClose ''xclip'' (Some 0)], Resolved ''hi'')
   \<and> \<not> isClipboardAPIAvailable bare \<and> \<not> isBrowser bare \<and> \<not> isNode bare
   \<and> copyAttempt bare calm None ''hi''
       = ([], Rejected (Error ''No clipboard method available in this environment''))"
  using
    copyText_chain_order [of "browser True False" "\<lambda>k. denied" NoOptions "''hi''" False
      "''hi''" 0 2 "Some Body" 0 calm "DOMException ''NotAllowedError''"]
    copyText_chain_order [of "browser True False"
      "\<lambda>k. if k = 0 then denied\<lparr>execCommand := \<lambda>a. ExecReturns False\<rparr> else calm"
      NoOptions "''hi''" False "''hi''" 1 2 "Some Body" 0 denied
      "DOMException ''NotAllowedError''"]
    copyText_chain_order [of bare "\<lambda>k. calm" "retry_options 1 100 0" "''hi''" False
      "''hi''" 0 1 None 0 calm "DOMException ''NotAllowedError''"]
    copyText_chain_order [of "headless ''linux''" "\<lambda>k. calm" NoOptions "''hi''" False
      "''hi''" 0 2 None 0 calm "DOMException ''NotAllowedError''"]
    copyText_chain_order [of "browser False False" "\<lambda>k. calm" NoOptions "''hi''" False
      "''hi''" 0 2 "Some Body" 0 calm "DOMException ''NotAllowedError''"]
  by (simp add: browser_def headless_def bare_def calm_def denied_def retry_options_def
      isClipboardAPIAvailable_def copyText_def copyPass_def containerFor_def empty_object_def
      retryOperation_def withTimeout_def tryOnce.simps copyAttempt_def modernCopy_def
      modernCopyFailed_def legacyCopy_def catch_promise_def then_promise_def
      resolvedPromise_def rejectedPromise_def nodeClipboardCopy_def copyCommand_def
      on_events_finished Let_def)

text \<open>
  The claim as it was stated fails where a deadline is set: in a context that is neither a
  browser nor a Node process every pass fails with "No clipboard method available in this
  environment", and with a timeout of 50 and a retry delay of 100 the caller of
  \<^verbatim>\<open>copyText\<close> is rejected with the timeout error at 50, not with that error.
\<close>

theorem copyText_chain_order_counterexample:
  "\<not> isClipboardAPIAvailable bare \<and> \<not> isBrowser bare \<and> \<not> isNode bare
   \<and> snd (copyAttempt bare calm None ''hi'')
       = Rejected (Error ''No clipboard method available in this environment'')
   \<and> observed (copyText bare False steady ''hi'' (retry_options 2 100 50))
       = Failed 50 (Error ''Operation timed out after 50ms'')"
  by (simp add: bare_def calm_def steady_def retry_options_def isClipboardAPIAvailable_def copyText_def
      copyPass_def containerFor_def retryOperation_def withTimeout_def timeoutError_def
      show_int_def digit_def tryOnce.simps copyAttempt_def rejectedPromise_def Let_def)

text \<open>
  C9. The public copy operation, given anything that is not a string, is rejected with a
  \<^verbatim>\<open>TypeError\<close> at once: the run has no step, so no clipboard mechanism is called, and no
  timer is set.
\<close>

theorem copy_rejects_non_string:
  "\<not> isString v \<Longrightarrow>
   copy e timerFirst ws v opts =
     \<lparr>steps = [], deadlines = [],
      observed = Failed 0 (TypeError ''NowClipboard.copy() expects a string argument'')\<rparr>"
  by (simp add: copy_def)

theorem copy_rejects_non_string_witness:
  "\<not> isString (JSNumber 42)
   \<and> copy (browser True False) False (\<lambda>k. \<lparr>writeText = (\<lambda>t. Resolved ()),
          execCommand = (\<lambda>a. ExecReturns True),
          spawnProc = (\<lambda>c a. Spawned [CloseEvent (Some 0)]), stdinWrite = (\<lambda>t. None),
          permissionsQuery = (\<lambda>n. QueryThrows (Error [])), settleTime = 0\<rparr>)
        (JSNumber 42) NoOptions =
     \<lparr>steps = [], deadlines = [],
      observed = Failed 0 (TypeError ''NowClipboard.copy() expects a string argument'')\<rparr>"
  using copy_rejects_non_string [of "JSNumber 42" "browser True False" False
      "\<lambda>k. \<lparr>writeText = (\<lambda>t. Resolved ()),
          execCommand = (\<lambda>a. ExecReturns True),
          spawnProc = (\<lambda>c a. Spawned [CloseEvent (Some 0)]), stdinWrite = (\<lambda>t. None),
          permissionsQuery = (\<lambda>n. QueryThrows (Error [])), settleTime = 0\<rparr>" NoOptions]
  by simp

text \<open>
  C8, as the code has it. For \<open>name\<close> one of \<^verbatim>\<open>read\<close> and \<^verbatim>\<open>write\<close>: whenever a Node process is
  detected, headless or not, the answer is \<^verbatim>\<open>granted\<close> and nothing is queried. When no Node
  process is detected, the answer is \<^verbatim>\<open>prompt\<close> if the permission subsystem is absent (no
  document, no \<^verbatim>\<open>navigator\<close>, no \<^verbatim>\<open>permissions\<close>, or no \<^verbatim>\<open>query\<close> function), and also if the query
  throws, is rejected, or yields no status object. The promise is never rejected.
\<close>

theorem queryPermission_states:
  assumes "name = ''read'' \<or> name = ''write''"
  shows "(isNode e \<longrightarrow> queryPermission e w name = ([], Resolved ''granted''))
    \<and> (\<not> isNode e \<and>
        (\<not> isBrowser e \<or> \<not> hasNavigator e \<or> \<not> hasPermissions e \<or> \<not> hasPermissionsQuery e) \<longrightarrow>
          queryPermission e w name = ([], Resolved ''prompt''))
    \<and> (\<not> isNode e \<and>
        ((\<exists>err. permissionsQuery w (''clipboard-'' @ name) = QueryThrows err)
         \<or> (\<exists>err. permissionsQuery w (''clipboard-'' @ name) = QueryReturns (Rejected err))
         \<or> permissionsQuery w (''clipboard-'' @ name) = QueryReturns (Resolved None)) \<longrightarrow>
          snd (queryPermission e w name) = Resolved ''prompt'')
    \<and> (\<forall>err. snd (queryPermission e w name) \<noteq> Rejected err)"
  using assms
  by (auto simp: queryPermission_def queryClipboardPermission_def resolvedPromise_def
      rejectedPromise_def catch_promise_def then_promise_def
      split: query_result.splits option.splits outcome.splits)

theorem queryPermission_states_witness:
  "(''read'' = ''read'' \<or> ''read'' = ''write'')
   \<and> isNode (headless ''linux'')
   \<and> queryPermission (headless ''linux'') calm ''read'' = ([], Resolved ''granted'')
   \<and> \<not> isNode (browser True False) \<and> \<not> hasPermissions (browser True False)
   \<and> queryPermission (browser True False) calm ''read'' = ([], Resolved ''prompt'')
   \<and> permissionsQuery (calm\<lparr>permissionsQuery := \<lambda>n. QueryReturns (Rejected (DOMException ''NotSupportedError''))\<rparr>)
        (''clipboard-'' @ ''read'') = QueryReturns (Rejected (DOMException ''NotSupportedError''))
   \<and> queryPermission
        ((browser True False)\<lparr>hasPermissions := True, hasPermissionsQuery := True\<rparr>)
        (calm\<lparr>permissionsQuery := \<lambda>n. QueryReturns (Rejected (DOMException ''NotSupportedError''))\<rparr>)
        ''read''
      = ([PermissionsQuery ''clipboard-read'', Caught (DOMException ''NotSupportedError'')],
         Resolved ''prompt'')"
  using queryPermission_states [of "''read''" "headless ''linux''" calm]
    queryPermission_states [of "''read''" "browser True False" calm]
    queryPermission_states [of "''read''"
      "(browser True False)\<lparr>hasPermissions := True, hasPermissionsQuery := True\<rparr>"
      "calm\<lparr>permissionsQuery := \<lambda>n. QueryReturns (Rejected (DOMException ''NotSupportedError''))\<rparr>"]
  by (simp add: headless_def browser_def calm_def queryPermission_def
      queryClipboardPermission_def resolvedPromise_def rejectedPromise_def catch_promise_def
      then_promise_def)

text \<open>
  The claim as it was stated fails in a context that has a document and is also a Node
  process (a jsdom or Electron process): the permission subsystem is absent there, and the
  answer is \<^verbatim>\<open>granted\<close>, not \<^verbatim>\<open>prompt\<close>.
\<close>

theorem queryPermission_counterexample:
  "isBrowser (browser False True) \<and> \<not> hasPermissions (browser False True)
   \<and> snd (queryPermission (browser False True) calm ''read'') = Resolved ''granted''
   \<and> snd (queryPermission (browser False True) calm ''read'') \<noteq> Resolved ''prompt''"
  by (simp add: browser_def queryPermission_def resolvedPromise_def)

text \<open>
  C10, as the code has it. The paste-data parser returns a record for every argument and
  never throws. For a falsy \<^verbatim>\<open>clipboardData\<close> the record is the default one: empty text,
  empty markup, no file. Otherwise the text and the markup are the value \<^verbatim>\<open>getData\<close>
  returned when that value is truthy, whatever its type, and the empty string when it is
  falsy or \<^verbatim>\<open>getData\<close> throws; so both are strings whenever \<^verbatim>\<open>getData\<close> returns strings, as
  that of a real \<^verbatim>\<open>DataTransfer\<close> does. The files are always a list: the elements of an
  array-like \<^verbatim>\<open>files\<close>, and none where there is nothing to read or reading throws.
\<close>

theorem parsePasteData_total:
  "(\<exists>r. parsePasteData cd = Inr r)
   \<and> parsePasteData NoClipboardData
       = Inr \<lparr>pd_text = JSString [], pd_html = JSString [], pd_files = []\<rparr>
   \<and> parsePasteData (ClipboardObject getData filesProp) =
       Inr \<lparr>pd_text = (case getData ''text/plain'' of
                         Inl err \<Rightarrow> JSString []
                       | Inr v \<Rightarrow> if truthy v then v else JSString []),
            pd_html = (case getData ''text/html'' of
                         Inl err \<Rightarrow> JSString []
                       | Inr v \<Rightarrow> if truthy v then v else JSString []),
            pd_files = (case filesProp of
                          ArrayLike fs \<Rightarrow> fs
                        | FilesNoLength \<Rightarrow> []
                        | FilesFalsy \<Rightarrow> []
                        | FilesThrow err \<Rightarrow> [])\<rparr>
   \<and> ((\<forall>format v. getData format = Inr v \<longrightarrow> (\<exists>s. v = JSString s)) \<longrightarrow>
        (\<exists>r s1 s2. parsePasteData (ClipboardObject getData filesProp) = Inr r
           \<and> pd_text r = JSString s1 \<and> pd_html r = JSString s2))"
proof -
  have shape: "parsePasteData (ClipboardObject getData filesProp) =
       Inr \<lparr>pd_text = (case getData ''text/plain'' of
                         Inl err \<Rightarrow> JSString []
                       | Inr v \<Rightarrow> if truthy v then v else JSString []),
            pd_html = (case getData ''text/html'' of
                         Inl err \<Rightarrow> JSString []
                       | Inr v \<Rightarrow> if truthy v then v else JSString []),
            pd_files = (case filesProp of
                          ArrayLike fs \<Rightarrow> fs
                        | FilesNoLength \<Rightarrow> []
                        | FilesFalsy \<Rightarrow> []
                        | FilesThrow err \<Rightarrow> [])\<rparr>"
    by (auto simp: parsePasteData_def try_ignore_def js_or_def Let_def
        split: sum.splits files_prop.splits)
  have total: "\<exists>r. parsePasteData cd = Inr r"
    by (cases cd) (simp_all add: parsePasteData_def Let_def)
  have default: "parsePasteData NoClipboardData
       = Inr \<lparr>pd_text = JSString [], pd_html = JSString [], pd_files = []\<rparr>"
    by (simp add: parsePasteData_def)
  have strings: "(\<forall>format v. getData format = Inr v \<longrightarrow> (\<exists>s. v = JSString s)) \<longrightarrow>
        (\<exists>r s1 s2. parsePasteData (ClipboardObject getData filesProp) = Inr r
           \<and> pd_text r = JSString s1 \<and> pd_html r = JSString s2)"
  proof
    assume h: "\<forall>format v. getData format = Inr v \<longrightarrow> (\<exists>s. v = JSString s)"
    have a: "\<exists>s. (case getData ''text/plain'' of
                     Inl err \<Rightarrow> JSString []
                   | Inr v \<Rightarrow> if truthy v then v else JSString []) = JSString s"
      using h by (cases "getData ''text/plain''") auto
    have b: "\<exists>s. (case getData ''text/html'' of
                     Inl err \<Rightarrow> JSString []
                   | Inr v \<Rightarrow> if truthy v then v else JSString []) = JSString s"
      using h by (cases "getData ''text/html''") auto
    from a b show "\<exists>r s1 s2. parsePasteData (ClipboardObject getData filesProp) = Inr r
           \<and> pd_text r = JSString s1 \<and> pd_html r = JSString s2"
      unfolding shape by auto
  qed
  from total default shape strings show ?thesis by (intro conjI)
qed

theorem parsePasteData_total_witness:
  "parsePasteData (ClipboardObject (\<lambda>format. Inl (TypeError ''getData is not a function''))
       (FilesThrow (Error ''denied'') :: nat files_prop))
     = Inr \<lparr>pd_text = JSString [], pd_html = JSString [], pd_files = []\<rparr>
   \<and> parsePasteData (ClipboardObject
       (\<lambda>format. if format = ''text/plain'' then Inr (JSString ''hi'')
                  else Inl (Error ''no markup''))
       (ArrayLike [1::nat, 2]))
     = Inr \<lparr>pd_text = JSString ''hi'', pd_html = JSString [], pd_files = [1, 2]\<rparr>"
  using parsePasteData_total [of NoClipboardData
      "\<lambda>format. Inl (TypeError ''getData is not a function'')"
      "FilesThrow (Error ''denied'') :: nat files_prop"]
    parsePasteData_total [of NoClipboardData
      "\<lambda>format. if format = ''text/plain'' then Inr (JSString ''hi'')
                 else Inl (Error ''no markup'')"
      "ArrayLike [1::nat, 2]"]
  by (simp add: parsePasteData_def try_ignore_def js_or_def)

text \<open>
  The claim as it was stated, for every input, fails at an object whose \<^verbatim>\<open>getData\<close>
  returns the number 42: the text and the markup of the record are that number, which is
  not a string.
\<close>

theorem parsePasteData_total_counterexample:
  "parsePasteData (ClipboardObject always42 (FilesFalsy :: nat files_prop))
     = Inr \<lparr>pd_text = JSNumber 42, pd_html = JSNumber 42, pd_files = []\<rparr>
   \<and> \<not> isString (JSNumber 42)"
  by (simp add: parsePasteData_def always42_def try_ignore_def js_or_def)

end
